theory Spec2Isabelle
  imports Main
begin

section \<open>AgentScope tracing: GenAI to OpenInference translation\<close>

text \<open>
  A shallow embedding of \<^verbatim>\<open>src/agentscope/tracing/_processor.py\<close> and of
  \<^verbatim>\<open>setup_phoenix_tracing\<close> in \<^verbatim>\<open>src/agentscope/tracing/_setup.py\<close>.
  Python names that start with an underscore lose it (an Isabelle name starts with a
  letter); a method \<^verbatim>\<open>C.m\<close> is the function \<open>C_m\<close>.
\<close>

subsection \<open>Python values and the operations the translator applies to them\<close>

text \<open>
  The translator reads a \<^verbatim>\<open>Mapping[str, Any]\<close>. The values of the model are
  \<^verbatim>\<open>None\<close>, booleans, (unbounded) integers, strings, lists, tuples and dicts.
  Floating-point values are not part of the model.
\<close>

datatype pyval =
    VNone
  | VBool bool
  | VInt int
  | VStr string
  | VList "pyval list"
  | VTuple "pyval list"
  | VDict "(pyval \<times> pyval) list"

datatype error = TypeError | AttributeError | Raised string

type_synonym attrs = "string \<rightharpoonup> pyval"

text \<open>\<^verbatim>\<open>bool(v)\<close>: what an \<^verbatim>\<open>if\<close> tests.\<close>

fun truthy :: "pyval \<Rightarrow> bool" where
  "truthy VNone = False"
| "truthy (VBool b) = b"
| "truthy (VInt i) = (i \<noteq> 0)"
| "truthy (VStr s) = (s \<noteq> [])"
| "truthy (VList xs) = (xs \<noteq> [])"
| "truthy (VTuple xs) = (xs \<noteq> [])"
| "truthy (VDict kvs) = (kvs \<noteq> [])"

text \<open>\<^verbatim>\<open>hash(v)\<close> succeeds: lists and dicts are unhashable, a tuple is hashable when
  all its elements are.\<close>

fun hashable :: "pyval \<Rightarrow> bool" where
  "hashable VNone = True"
| "hashable (VBool b) = True"
| "hashable (VInt i) = True"
| "hashable (VStr s) = True"
| "hashable (VList xs) = False"
| "hashable (VTuple xs) = (\<forall>x \<in> set xs. hashable x)"
| "hashable (VDict kvs) = False"

text \<open>\<^verbatim>\<open>a + b\<close>: integer addition (a bool counts as 0 or 1), concatenation of two
  strings, two lists or two tuples, and \<^verbatim>\<open>TypeError\<close> for every other pair.\<close>

fun py_add :: "pyval \<Rightarrow> pyval \<Rightarrow> error + pyval" where
  "py_add (VInt a) (VInt b) = Inr (VInt (a + b))"
| "py_add (VInt a) (VBool b) = Inr (VInt (a + of_bool b))"
| "py_add (VBool a) (VInt b) = Inr (VInt (of_bool a + b))"
| "py_add (VBool a) (VBool b) = Inr (VInt (of_bool a + of_bool b))"
| "py_add (VStr a) (VStr b) = Inr (VStr (a @ b))"
| "py_add (VList a) (VList b) = Inr (VList (a @ b))"
| "py_add (VTuple a) (VTuple b) = Inr (VTuple (a @ b))"
| "py_add _ _ = Inl TypeError"

text \<open>\<^verbatim>\<open>attrs.get(key)\<close>: the value, or \<^verbatim>\<open>None\<close> when the key is missing.\<close>

definition py_get :: "attrs \<Rightarrow> string \<Rightarrow> pyval" where
  "py_get m k = (case m k of None \<Rightarrow> VNone | Some v \<Rightarrow> v)"

text \<open>\<^verbatim>\<open>d.get(key, default)\<close> on a dict with string keys: the key is hashed first (an
  unhashable key raises), and only a string can be equal to a string key.\<close>

definition dict_get :: "(string \<times> string) list \<Rightarrow> pyval \<Rightarrow> string \<Rightarrow> error + string" where
  "dict_get d key dflt =
     (if \<not> hashable key then Inl TypeError
      else case key of
             VStr s \<Rightarrow> (case map_of d s of Some v \<Rightarrow> Inr v | None \<Rightarrow> Inr dflt)
           | _ \<Rightarrow> Inr dflt)"

subsection \<open>Module constants\<close>

definition OPERATION_TO_SPAN_KIND :: "(string \<times> string) list" where
  "OPERATION_TO_SPAN_KIND =
     [(''chat'', ''LLM''),
      (''invoke_agent'', ''AGENT''),
      (''execute_tool'', ''TOOL''),
      (''embeddings'', ''EMBEDDING''),
      (''format'', ''CHAIN''),
      (''invoke_generic_function'', ''CHAIN'')]"

abbreviation GENAI_OPERATION_NAME :: string where
  "GENAI_OPERATION_NAME \<equiv> ''gen_ai.operation.name''"
abbreviation GENAI_USAGE_INPUT_TOKENS :: string where
  "GENAI_USAGE_INPUT_TOKENS \<equiv> ''gen_ai.usage.input_tokens''"
abbreviation GENAI_USAGE_OUTPUT_TOKENS :: string where
  "GENAI_USAGE_OUTPUT_TOKENS \<equiv> ''gen_ai.usage.output_tokens''"
abbreviation GENAI_REQUEST_MODEL :: string where
  "GENAI_REQUEST_MODEL \<equiv> ''gen_ai.request.model''"
abbreviation GENAI_PROVIDER_NAME :: string where
  "GENAI_PROVIDER_NAME \<equiv> ''gen_ai.system''"
abbreviation GENAI_AGENT_NAME :: string where
  "GENAI_AGENT_NAME \<equiv> ''gen_ai.agent.name''"
abbreviation GENAI_TOOL_NAME :: string where
  "GENAI_TOOL_NAME \<equiv> ''gen_ai.tool.name''"
abbreviation GENAI_CONVERSATION_ID :: string where
  "GENAI_CONVERSATION_ID \<equiv> ''gen_ai.conversation.id''"

abbreviation AGENTSCOPE_FUNCTION_INPUT :: string where
  "AGENTSCOPE_FUNCTION_INPUT \<equiv> ''agentscope.function.input''"
abbreviation AGENTSCOPE_FUNCTION_OUTPUT :: string where
  "AGENTSCOPE_FUNCTION_OUTPUT \<equiv> ''agentscope.function.output''"

abbreviation OI_SPAN_KIND :: string where
  "OI_SPAN_KIND \<equiv> ''openinference.span.kind''"
abbreviation OI_INPUT_VALUE :: string where
  "OI_INPUT_VALUE \<equiv> ''input.value''"
abbreviation OI_INPUT_MIME_TYPE :: string where
  "OI_INPUT_MIME_TYPE \<equiv> ''input.mime_type''"
abbreviation OI_OUTPUT_VALUE :: string where
  "OI_OUTPUT_VALUE \<equiv> ''output.value''"
abbreviation OI_OUTPUT_MIME_TYPE :: string where
  "OI_OUTPUT_MIME_TYPE \<equiv> ''output.mime_type''"
abbreviation OI_LLM_TOKEN_PROMPT :: string where
  "OI_LLM_TOKEN_PROMPT \<equiv> ''llm.token_count.prompt''"
abbreviation OI_LLM_TOKEN_COMPLETION :: string where
  "OI_LLM_TOKEN_COMPLETION \<equiv> ''llm.token_count.completion''"
abbreviation OI_LLM_TOKEN_TOTAL :: string where
  "OI_LLM_TOKEN_TOTAL \<equiv> ''llm.token_count.total''"
abbreviation OI_METADATA_MODEL :: string where
  "OI_METADATA_MODEL \<equiv> ''metadata.model''"
abbreviation OI_METADATA_PROVIDER :: string where
  "OI_METADATA_PROVIDER \<equiv> ''metadata.provider''"
abbreviation OI_METADATA_AGENT_NAME :: string where
  "OI_METADATA_AGENT_NAME \<equiv> ''metadata.agent_name''"
abbreviation OI_METADATA_TOOL_NAME :: string where
  "OI_METADATA_TOOL_NAME \<equiv> ''metadata.tool_name''"
abbreviation OI_METADATA_CONVERSATION_ID :: string where
  "OI_METADATA_CONVERSATION_ID \<equiv> ''metadata.conversation_id''"

subsection \<open>The attribute translator\<close>

text \<open>
  \<^verbatim>\<open>_convert_genai_to_openinference\<close> fills the dict \<^verbatim>\<open>extra\<close> in four numbered blocks.
  Each block is a function from the \<^verbatim>\<open>extra\<close> built so far to the next one; the two
  blocks that can raise return a sum.
\<close>

text \<open>Block 1, \<^verbatim>\<open>operation_name \<rightarrow> span_kind\<close>.\<close>

definition span_kind_block :: "attrs \<Rightarrow> attrs \<Rightarrow> error + attrs" where
  "span_kind_block attrs extra =
     (let op_name = py_get attrs GENAI_OPERATION_NAME in
      if truthy op_name then
        (case dict_get OPERATION_TO_SPAN_KIND op_name ''CHAIN'' of
           Inl e \<Rightarrow> Inl e
         | Inr span_kind \<Rightarrow> Inr (extra(OI_SPAN_KIND \<mapsto> VStr span_kind)))
      else Inr extra)"

text \<open>Block 2, token counts.\<close>

definition token_block :: "attrs \<Rightarrow> attrs \<Rightarrow> error + attrs" where
  "token_block attrs extra =
     (let input_tokens = py_get attrs GENAI_USAGE_INPUT_TOKENS;
          output_tokens = py_get attrs GENAI_USAGE_OUTPUT_TOKENS;
          extra1 = (if input_tokens \<noteq> VNone
                    then extra(OI_LLM_TOKEN_PROMPT \<mapsto> input_tokens) else extra);
          extra2 = (if output_tokens \<noteq> VNone
                    then extra1(OI_LLM_TOKEN_COMPLETION \<mapsto> output_tokens) else extra1)
      in if input_tokens \<noteq> VNone \<and> output_tokens \<noteq> VNone then
           (case py_add input_tokens output_tokens of
              Inl e \<Rightarrow> Inl e
            | Inr s \<Rightarrow> Inr (extra2(OI_LLM_TOKEN_TOTAL \<mapsto> s)))
         else Inr extra2)"

text \<open>Block 3, input and output values from \<^verbatim>\<open>agentscope.function.*\<close>.\<close>

definition payload_block :: "attrs \<Rightarrow> attrs \<Rightarrow> attrs" where
  "payload_block attrs extra =
     (let func_input = py_get attrs AGENTSCOPE_FUNCTION_INPUT;
          extra1 = (if truthy func_input
                    then extra(OI_INPUT_VALUE \<mapsto> func_input,
                               OI_INPUT_MIME_TYPE \<mapsto> VStr ''application/json'')
                    else extra);
          func_output = py_get attrs AGENTSCOPE_FUNCTION_OUTPUT
      in if truthy func_output
         then extra1(OI_OUTPUT_VALUE \<mapsto> func_output,
                     OI_OUTPUT_MIME_TYPE \<mapsto> VStr ''application/json'')
         else extra1)"

text \<open>Block 4, metadata mappings: five statements of the shape
  \<^verbatim>\<open>if v := attrs.get(src): extra[dst] = v\<close>.\<close>

definition copy_if_truthy :: "attrs \<Rightarrow> string \<Rightarrow> string \<Rightarrow> attrs \<Rightarrow> attrs" where
  "copy_if_truthy attrs src dst extra =
     (let v = py_get attrs src in if truthy v then extra(dst \<mapsto> v) else extra)"

definition metadata_block :: "attrs \<Rightarrow> attrs \<Rightarrow> attrs" where
  "metadata_block attrs extra =
     (let extra1 = copy_if_truthy attrs GENAI_REQUEST_MODEL OI_METADATA_MODEL extra;
          extra2 = copy_if_truthy attrs GENAI_PROVIDER_NAME OI_METADATA_PROVIDER extra1;
          extra3 = copy_if_truthy attrs GENAI_AGENT_NAME OI_METADATA_AGENT_NAME extra2;
          extra4 = copy_if_truthy attrs GENAI_TOOL_NAME OI_METADATA_TOOL_NAME extra3
      in copy_if_truthy attrs GENAI_CONVERSATION_ID OI_METADATA_CONVERSATION_ID extra4)"

definition convert_genai_to_openinference :: "attrs \<Rightarrow> error + attrs" where
  "convert_genai_to_openinference attrs =
     (case span_kind_block attrs Map.empty of
        Inl e \<Rightarrow> Inl e
      | Inr extra1 \<Rightarrow>
          (case token_block attrs extra1 of
             Inl e \<Rightarrow> Inl e
           | Inr extra2 \<Rightarrow> Inr (metadata_block attrs (payload_block attrs extra2))))"

subsection \<open>Finished spans\<close>

text \<open>
  \<^verbatim>\<open>ReadableSpan\<close> belongs to the OpenTelemetry SDK; the model keeps what this module
  reads of it. The span context of a \<^verbatim>\<open>ReadableSpan\<close> is optional (its constructor
  defaults it to \<^verbatim>\<open>None\<close>). \<^verbatim>\<open>_ConvertedSpan\<close> is the subclass of this module, with
  its two slots \<^verbatim>\<open>_original\<close> and \<^verbatim>\<open>_merged_attributes\<close>. Spans are never mutated
  here, so a reference to a span is modelled by the span itself: returning the object
  that was passed in is returning the same value, and a new \<^verbatim>\<open>_ConvertedSpan\<close> around
  a span is a different value from that span. \<^verbatim>\<open>to_json\<close>, which serialises inside the
  SDK, is left out.

  The events, the links and the resource of a span are objects of their own: the span
  holds a reference to each, an address in a store of objects. What the SDK's accessor
  of a \<^verbatim>\<open>ReadableSpan\<close> does with that reference (hand it out, or build a new sequence
  and hand out that) is the SDK's business, so each of these three accessors takes the
  SDK's behaviour as a parameter: a function from the span's record and the store to
  the reference it returns and the store it leaves.
\<close>

record span_context_rec =
  trace_id :: nat
  span_id :: nat

datatype span_kind_enum = INTERNAL | SERVER | CLIENT | PRODUCER | CONSUMER

datatype status_code = UNSET | OK | ERROR

type_synonym ref = nat

record event_rec =
  event_name :: string
  event_timestamp :: int

record link_rec =
  link_context :: span_context_rec

datatype heap_obj =
    EventsObj "event_rec list"
  | LinksObj "link_rec list"
  | ResourceObj "(string \<times> string) list"

type_synonym store = "heap_obj list"

record readable_span_rec =
  rs_name :: string
  rs_context :: "span_context_rec option"
  rs_kind :: span_kind_enum
  rs_parent :: "span_context_rec option"
  rs_start_time :: "int option"
  rs_end_time :: "int option"
  rs_status :: status_code
  rs_attributes :: "attrs option"
  rs_events :: ref
  rs_links :: ref
  rs_resource :: ref
  rs_instrumentation_scope :: "string option"
  rs_dropped_attributes :: nat
  rs_dropped_events :: nat
  rs_dropped_links :: nat

datatype span =
    ReadableSpan readable_span_rec
  | ConvertedSpan span attrs

type_synonym sdk_accessor = "readable_span_rec \<Rightarrow> store \<Rightarrow> ref \<times> store"

text \<open>The accessors: those of \<^verbatim>\<open>ReadableSpan\<close> read the record, those of
  \<^verbatim>\<open>_ConvertedSpan\<close> are the properties of lines 66 to 127.\<close>

fun name :: "span \<Rightarrow> string" where
  "name (ReadableSpan r) = rs_name r"
| "name (ConvertedSpan original merged) = name original"

fun context_of :: "span \<Rightarrow> span_context_rec option" where
  "context_of (ReadableSpan r) = rs_context r"
| "context_of (ConvertedSpan original merged) = context_of original"

fun kind :: "span \<Rightarrow> span_kind_enum" where
  "kind (ReadableSpan r) = rs_kind r"
| "kind (ConvertedSpan original merged) = kind original"

fun parent :: "span \<Rightarrow> span_context_rec option" where
  "parent (ReadableSpan r) = rs_parent r"
| "parent (ConvertedSpan original merged) = parent original"

fun start_time :: "span \<Rightarrow> int option" where
  "start_time (ReadableSpan r) = rs_start_time r"
| "start_time (ConvertedSpan original merged) = start_time original"

fun end_time :: "span \<Rightarrow> int option" where
  "end_time (ReadableSpan r) = rs_end_time r"
| "end_time (ConvertedSpan original merged) = end_time original"

fun status :: "span \<Rightarrow> status_code" where
  "status (ReadableSpan r) = rs_status r"
| "status (ConvertedSpan original merged) = status original"

fun attributes :: "span \<Rightarrow> attrs option" where
  "attributes (ReadableSpan r) = rs_attributes r"
| "attributes (ConvertedSpan original merged) = Some merged"

fun events :: "sdk_accessor \<Rightarrow> span \<Rightarrow> store \<Rightarrow> ref \<times> store" where
  "events sdk_events (ReadableSpan r) st = sdk_events r st"
| "events sdk_events (ConvertedSpan original merged) st = events sdk_events original st"

fun links :: "sdk_accessor \<Rightarrow> span \<Rightarrow> store \<Rightarrow> ref \<times> store" where
  "links sdk_links (ReadableSpan r) st = sdk_links r st"
| "links sdk_links (ConvertedSpan original merged) st = links sdk_links original st"

fun resource :: "sdk_accessor \<Rightarrow> span \<Rightarrow> store \<Rightarrow> ref \<times> store" where
  "resource sdk_resource (ReadableSpan r) st = sdk_resource r st"
| "resource sdk_resource (ConvertedSpan original merged) st = resource sdk_resource original st"

fun instrumentation_scope :: "span \<Rightarrow> string option" where
  "instrumentation_scope (ReadableSpan r) = rs_instrumentation_scope r"
| "instrumentation_scope (ConvertedSpan original merged) = instrumentation_scope original"

fun dropped_attributes :: "span \<Rightarrow> nat" where
  "dropped_attributes (ReadableSpan r) = rs_dropped_attributes r"
| "dropped_attributes (ConvertedSpan original merged) = dropped_attributes original"

fun dropped_events :: "span \<Rightarrow> nat" where
  "dropped_events (ReadableSpan r) = rs_dropped_events r"
| "dropped_events (ConvertedSpan original merged) = dropped_events original"

fun dropped_links :: "span \<Rightarrow> nat" where
  "dropped_links (ReadableSpan r) = rs_dropped_links r"
| "dropped_links (ConvertedSpan original merged) = dropped_links original"

fun get_span_context :: "span \<Rightarrow> span_context_rec option" where
  "get_span_context (ReadableSpan r) = rs_context r"
| "get_span_context (ConvertedSpan original merged) = get_span_context original"

text \<open>\<^verbatim>\<open>_ConvertedSpan.__init__\<close>: \<^verbatim>\<open>original.attributes\<close> that is \<^verbatim>\<open>None\<close> or empty
  counts as the empty dict, and \<^verbatim>\<open>{**orig_attrs, **extra_attributes}\<close> lets the
  right operand win.\<close>

definition ConvertedSpan_init :: "span \<Rightarrow> attrs \<Rightarrow> span" where
  "ConvertedSpan_init original extra_attributes =
     (let orig_attrs = (case attributes original of
                          None \<Rightarrow> Map.empty
                        | Some a \<Rightarrow> if a = Map.empty then Map.empty else a)
      in ConvertedSpan original (orig_attrs ++ extra_attributes))"

subsection \<open>The translating exporter\<close>

text \<open>
  The wrapped exporter is a collaborator outside this module: a function from the batch
  and its own state to what its \<^verbatim>\<open>export\<close> returns or raises, and its next state.
  What \<^verbatim>\<open>GenAIToOpenInferenceExporter.export\<close> does to the outside is kept in the
  world: the batches it passed to the wrapped exporter and the records it handed to
  the logger.
\<close>

datatype span_export_result = SUCCESS | FAILURE

type_synonym 's wrapped_exporter =
  "span list \<Rightarrow> 's \<Rightarrow> (error + span_export_result) \<times> 's"

record 's world =
  sink_state :: 's
  sink_calls :: "span list list"
  log_records :: "(string \<times> nat) list"

definition convert_span :: "span \<Rightarrow> error + span" where
  "convert_span span =
     (case attributes span of
        None \<Rightarrow> Inr span
      | Some a \<Rightarrow>
          if a = Map.empty then Inr span
          else (case convert_genai_to_openinference a of
                  Inl e \<Rightarrow> Inl e
                | Inr extra_attrs \<Rightarrow>
                    if extra_attrs = Map.empty then Inr span
                    else Inr (ConvertedSpan_init span extra_attrs)))"

text \<open>The list comprehension of \<^verbatim>\<open>export\<close>: left to right, stopping at the first span
  whose conversion raises.\<close>

fun convert_spans :: "span list \<Rightarrow> error + span list" where
  "convert_spans [] = Inr []"
| "convert_spans (span # spans) =
     (case convert_span span of
        Inl e \<Rightarrow> Inl e
      | Inr c \<Rightarrow> (case convert_spans spans of
                    Inl e \<Rightarrow> Inl e
                  | Inr cs \<Rightarrow> Inr (c # cs)))"

text \<open>The logging loop of \<^verbatim>\<open>export\<close>: for each converted span, in order, the arguments
  \<^verbatim>\<open>span.name\<close> and \<^verbatim>\<open>span.context.trace_id\<close> are evaluated and the record is handed
  to the logger. On a span whose context is \<^verbatim>\<open>None\<close> the attribute access raises
  \<^verbatim>\<open>AttributeError\<close>; the records of the spans before it have been handed over.\<close>

fun log_exported :: "span list \<Rightarrow> (string \<times> nat) list \<Rightarrow> error option \<times> (string \<times> nat) list" where
  "log_exported [] records = (None, records)"
| "log_exported (span # spans) records =
     (case context_of span of
        None \<Rightarrow> (Some AttributeError, records)
      | Some c \<Rightarrow> log_exported spans (records @ [(name span, trace_id c)]))"

definition GenAIToOpenInferenceExporter_export ::
  "'s wrapped_exporter \<Rightarrow> span list \<Rightarrow> 's world \<Rightarrow> (error + span_export_result) \<times> 's world" where
  "GenAIToOpenInferenceExporter_export wrapped spans w =
     (case convert_spans spans of
        Inl e \<Rightarrow> (Inl e, w)
      | Inr converted \<Rightarrow>
          (let (r, st) = wrapped converted (sink_state w);
               w1 = w\<lparr>sink_state := st, sink_calls := sink_calls w @ [converted]\<rparr>
           in case r of
                Inl e \<Rightarrow> (Inl e, w1)
              | Inr result \<Rightarrow>
                  (case log_exported converted (log_records w1) of
                     (Some e, records) \<Rightarrow> (Inl e, w1\<lparr>log_records := records\<rparr>)
                   | (None, records) \<Rightarrow> (Inr result, w1\<lparr>log_records := records\<rparr>))))"

subsection \<open>The translating processor and the Phoenix setup\<close>

text \<open>
  The objects \<^verbatim>\<open>setup_phoenix_tracing\<close> builds. \<^verbatim>\<open>OTLPSpanExporter\<close>,
  \<^verbatim>\<open>BatchSpanProcessor\<close>, \<^verbatim>\<open>SimpleSpanProcessor\<close>, \<^verbatim>\<open>Resource\<close> and \<^verbatim>\<open>TracerProvider\<close>
  are SDK classes, modelled by their constructor arguments.
\<close>

datatype exporter =
    OTLPSpanExporter string "(string \<times> string) list"
  | GenAIToOpenInferenceExporter exporter

datatype delivery_policy =
    BatchSpanProcessor exporter "(string \<times> pyval) list"
  | SimpleSpanProcessor exporter

datatype span_processor = GenAIToOpenInferenceProcessor delivery_policy

record tracer_provider =
  provider_resource :: "(string \<times> string) list"
  provider_processors :: "span_processor list"

text \<open>\<^verbatim>\<open>GenAIToOpenInferenceProcessor.__init__(exporter, batch=False, **processor_kwargs)\<close>:
  an omitted \<^verbatim>\<open>batch\<close> is \<open>None\<close> here and takes the default.\<close>

definition GenAIToOpenInferenceProcessor_init ::
  "exporter \<Rightarrow> bool option \<Rightarrow> (string \<times> pyval) list \<Rightarrow> span_processor" where
  "GenAIToOpenInferenceProcessor_init exporter batch_arg processor_kwargs =
     (let batch = (case batch_arg of None \<Rightarrow> False | Some b \<Rightarrow> b);
          converting_exporter = GenAIToOpenInferenceExporter exporter
      in if batch
         then GenAIToOpenInferenceProcessor (BatchSpanProcessor converting_exporter processor_kwargs)
         else GenAIToOpenInferenceProcessor (SimpleSpanProcessor converting_exporter))"

definition add_span_processor :: "tracer_provider \<Rightarrow> span_processor \<Rightarrow> tracer_provider" where
  "add_span_processor provider p =
     provider\<lparr>provider_processors := provider_processors provider @ [p]\<rparr>"

text \<open>\<^verbatim>\<open>setup_phoenix_tracing(endpoint, project_name=None)\<close>; the result is the provider it
  passes to \<^verbatim>\<open>trace.set_tracer_provider\<close>. \<^verbatim>\<open>project_name or "agentscope"\<close> takes the
  default for \<^verbatim>\<open>None\<close> and for the empty string.\<close>

definition setup_phoenix_tracing :: "string \<Rightarrow> string option \<Rightarrow> tracer_provider" where
  "setup_phoenix_tracing endpoint project_name =
     (let project = (case project_name of
                       None \<Rightarrow> ''agentscope''
                     | Some p \<Rightarrow> if p = [] then ''agentscope'' else p);
          resource_v = [(''service.name'', project)];
          provider = \<lparr>provider_resource = resource_v, provider_processors = []\<rparr>;
          exporter = OTLPSpanExporter endpoint [(''phoenix-project-name'', project)];
          processor = GenAIToOpenInferenceProcessor_init exporter None []
      in add_span_processor provider processor)"

text \<open>The delivery policy a translating processor holds, and whether it is the
  buffered one.\<close>

fun policy_of :: "span_processor \<Rightarrow> delivery_policy" where
  "policy_of (GenAIToOpenInferenceProcessor p) = p"

fun is_batch :: "delivery_policy \<Rightarrow> bool" where
  "is_batch (BatchSpanProcessor e kw) = True"
| "is_batch (SimpleSpanProcessor e) = False"

subsection \<open>Vocabularies and a worked example\<close>

text \<open>The keys the translator reads and the keys it writes, as the module's constants
  list them.\<close>

definition source_keys :: "string list" where
  "source_keys =
     [GENAI_OPERATION_NAME, GENAI_USAGE_INPUT_TOKENS, GENAI_USAGE_OUTPUT_TOKENS,
      AGENTSCOPE_FUNCTION_INPUT, AGENTSCOPE_FUNCTION_OUTPUT,
      GENAI_REQUEST_MODEL, GENAI_PROVIDER_NAME, GENAI_AGENT_NAME, GENAI_TOOL_NAME,
      GENAI_CONVERSATION_ID]"

definition target_keys :: "string list" where
  "target_keys =
     [OI_SPAN_KIND, OI_LLM_TOKEN_PROMPT, OI_LLM_TOKEN_COMPLETION, OI_LLM_TOKEN_TOTAL,
      OI_INPUT_VALUE, OI_INPUT_MIME_TYPE, OI_OUTPUT_VALUE, OI_OUTPUT_MIME_TYPE,
      OI_METADATA_MODEL, OI_METADATA_PROVIDER, OI_METADATA_AGENT_NAME,
      OI_METADATA_TOOL_NAME, OI_METADATA_CONVERSATION_ID]"

text \<open>The input of the specification's first concrete scenario, and the additions it
  expects.\<close>

definition scenario_attrs :: attrs where
  "scenario_attrs =
     [GENAI_OPERATION_NAME \<mapsto> VStr ''execute_tool'',
      GENAI_TOOL_NAME \<mapsto> VStr ''search'',
      GENAI_USAGE_INPUT_TOKENS \<mapsto> VInt 12,
      GENAI_USAGE_OUTPUT_TOKENS \<mapsto> VInt 5]"

definition scenario_extra :: attrs where
  "scenario_extra =
     [OI_SPAN_KIND \<mapsto> VStr ''TOOL'',
      OI_LLM_TOKEN_PROMPT \<mapsto> VInt 12,
      OI_LLM_TOKEN_COMPLETION \<mapsto> VInt 5,
      OI_LLM_TOKEN_TOTAL \<mapsto> VInt 17,
      OI_METADATA_TOOL_NAME \<mapsto> VStr ''search'']"

text \<open>An input whose operation name, function input and request model are present but falsy, with a token count of 0, and what the translator derives from it.\<close>

definition falsy_attrs :: attrs where
  "falsy_attrs =
     [GENAI_OPERATION_NAME \<mapsto> VStr '''',
      GENAI_USAGE_INPUT_TOKENS \<mapsto> VInt 0,
      GENAI_USAGE_OUTPUT_TOKENS \<mapsto> VInt 5,
      AGENTSCOPE_FUNCTION_INPUT \<mapsto> VList [],
      GENAI_REQUEST_MODEL \<mapsto> VInt 0]"

definition falsy_extra :: attrs where
  "falsy_extra =
     [OI_LLM_TOKEN_PROMPT \<mapsto> VInt 0,
      OI_LLM_TOKEN_COMPLETION \<mapsto> VInt 5,
      OI_LLM_TOKEN_TOTAL \<mapsto> VInt 5]"

text \<open>The attribute mapping of a span, \<^verbatim>\<open>None\<close> counting as the empty mapping.\<close>

definition attrs_or_empty :: "span \<Rightarrow> attrs" where
  "attrs_or_empty span = (case attributes span of None \<Rightarrow> Map.empty | Some a \<Rightarrow> a)"

text \<open>Example spans: one with no attributes, one with the scenario's attributes.\<close>

definition plain_rec :: readable_span_rec where
  "plain_rec =
     \<lparr>rs_name = ''reply'',
      rs_context = Some \<lparr>trace_id = 7, span_id = 1\<rparr>,
      rs_kind = INTERNAL,
      rs_parent = None,
      rs_start_time = Some 100,
      rs_end_time = Some 200,
      rs_status = OK,
      rs_attributes = None,
      rs_events = 0,
      rs_links = 1,
      rs_resource = 2,
      rs_instrumentation_scope = Some ''agentscope'',
      rs_dropped_attributes = 0,
      rs_dropped_events = 0,
      rs_dropped_links = 0\<rparr>"

definition bare_span :: span where
  "bare_span = ReadableSpan plain_rec"

definition scenario_span :: span where
  "scenario_span = ReadableSpan (plain_rec\<lparr>rs_attributes := Some scenario_attrs\<rparr>)"

text \<open>An extra mapping that collides with a key of the scenario's attributes.\<close>

definition override_extra :: attrs where
  "override_extra =
     [GENAI_TOOL_NAME \<mapsto> VStr ''override'', OI_SPAN_KIND \<mapsto> VStr ''TOOL'']"

text \<open>A span whose two token counts are an integer and a string, and a span without a
  span context.\<close>

definition mixed_span :: span where
  "mixed_span = ReadableSpan (plain_rec\<lparr>rs_attributes :=
     Some [GENAI_USAGE_INPUT_TOKENS \<mapsto> VInt 1, GENAI_USAGE_OUTPUT_TOKENS \<mapsto> VStr ''x'']\<rparr>)"

text \<open>A wrapped exporter that always succeeds, and a world in which nothing has happened yet.\<close>

definition no_context_span :: span where
  "no_context_span = ReadableSpan (plain_rec\<lparr>rs_context := None\<rparr>)"

definition success_sink :: "unit wrapped_exporter" where
  "success_sink batch st = (Inr SUCCESS, st)"

definition world0 :: "unit world" where
  "world0 = \<lparr>sink_state = (), sink_calls = [], log_records = []\<rparr>"

section \<open>Properties\<close>

subsection \<open>The blocks of the translator\<close>

lemma span_kind_block_eq:
  "span_kind_block attrs e =
     (let op_name = py_get attrs GENAI_OPERATION_NAME in
      if \<not> truthy op_name then Inr e
      else if \<not> hashable op_name then Inl TypeError
      else Inr (e(OI_SPAN_KIND \<mapsto> VStr (case op_name of
                  VStr s \<Rightarrow> (case map_of OPERATION_TO_SPAN_KIND s of Some v \<Rightarrow> v | None \<Rightarrow> ''CHAIN'')
                | _ \<Rightarrow> ''CHAIN''))))"
  by (simp add: span_kind_block_def dict_get_def Let_def split: pyval.splits option.splits)

lemma span_kind_block_Inl_iff:
  "span_kind_block attrs e = Inl x \<longleftrightarrow>
     x = TypeError \<and> truthy (py_get attrs GENAI_OPERATION_NAME) \<and>
     \<not> hashable (py_get attrs GENAI_OPERATION_NAME)"
  by (auto simp: span_kind_block_eq Let_def)

lemma py_add_Inl: "py_add a b = Inl x \<Longrightarrow> x = TypeError"
  by (cases "(a, b)" rule: py_add.cases) auto

lemma token_block_Inr:
  assumes "token_block attrs e = Inr e'"
  shows "e' OI_LLM_TOKEN_PROMPT =
           (if py_get attrs GENAI_USAGE_INPUT_TOKENS \<noteq> VNone
            then Some (py_get attrs GENAI_USAGE_INPUT_TOKENS) else e OI_LLM_TOKEN_PROMPT)"
    and "e' OI_LLM_TOKEN_COMPLETION =
           (if py_get attrs GENAI_USAGE_OUTPUT_TOKENS \<noteq> VNone
            then Some (py_get attrs GENAI_USAGE_OUTPUT_TOKENS) else e OI_LLM_TOKEN_COMPLETION)"
    and "e' OI_LLM_TOKEN_TOTAL =
           (if py_get attrs GENAI_USAGE_INPUT_TOKENS \<noteq> VNone \<and> py_get attrs GENAI_USAGE_OUTPUT_TOKENS \<noteq> VNone
            then (case py_add (py_get attrs GENAI_USAGE_INPUT_TOKENS) (py_get attrs GENAI_USAGE_OUTPUT_TOKENS) of Inr v \<Rightarrow> Some v | Inl x \<Rightarrow> None) else e OI_LLM_TOKEN_TOTAL)"
    and "k \<noteq> OI_LLM_TOKEN_PROMPT \<Longrightarrow> k \<noteq> OI_LLM_TOKEN_COMPLETION \<Longrightarrow> k \<noteq> OI_LLM_TOKEN_TOTAL \<Longrightarrow> e' k = e k"
  using assms by (auto simp: token_block_def Let_def split: if_splits sum.splits)

lemma token_block_Inl:
  "token_block attrs e = Inl x \<longleftrightarrow>
     py_get attrs GENAI_USAGE_INPUT_TOKENS \<noteq> VNone \<and> py_get attrs GENAI_USAGE_OUTPUT_TOKENS \<noteq> VNone \<and>
     py_add (py_get attrs GENAI_USAGE_INPUT_TOKENS) (py_get attrs GENAI_USAGE_OUTPUT_TOKENS) = Inl x"
  by (auto simp: token_block_def Let_def split: if_splits sum.splits)

lemma token_block_Inl_iff:
  "token_block attrs e = Inl x \<longleftrightarrow>
     x = TypeError \<and>
     py_get attrs GENAI_USAGE_INPUT_TOKENS \<noteq> VNone \<and> py_get attrs GENAI_USAGE_OUTPUT_TOKENS \<noteq> VNone \<and>
     py_add (py_get attrs GENAI_USAGE_INPUT_TOKENS) (py_get attrs GENAI_USAGE_OUTPUT_TOKENS) = Inl TypeError"
  using py_add_Inl by (auto simp: token_block_Inl)

lemma payload_block_apply:
  "payload_block attrs e k =
     (if k = OI_OUTPUT_MIME_TYPE \<and> truthy (py_get attrs AGENTSCOPE_FUNCTION_OUTPUT) then Some (VStr ''application/json'')
      else if k = OI_OUTPUT_VALUE \<and> truthy (py_get attrs AGENTSCOPE_FUNCTION_OUTPUT) then Some (py_get attrs AGENTSCOPE_FUNCTION_OUTPUT)
      else if k = OI_INPUT_MIME_TYPE \<and> truthy (py_get attrs AGENTSCOPE_FUNCTION_INPUT) then Some (VStr ''application/json'')
      else if k = OI_INPUT_VALUE \<and> truthy (py_get attrs AGENTSCOPE_FUNCTION_INPUT) then Some (py_get attrs AGENTSCOPE_FUNCTION_INPUT)
      else e k)"
  by (simp add: payload_block_def Let_def)

lemma copy_if_truthy_apply:
  "copy_if_truthy attrs src dst e k =
     (if k = dst \<and> truthy (py_get attrs src) then Some (py_get attrs src) else e k)"
  by (simp add: copy_if_truthy_def Let_def)

lemma metadata_block_apply:
  "metadata_block attrs e k =
     (if k = OI_METADATA_CONVERSATION_ID \<and> truthy (py_get attrs GENAI_CONVERSATION_ID) then Some (py_get attrs GENAI_CONVERSATION_ID)
      else if k = OI_METADATA_TOOL_NAME \<and> truthy (py_get attrs GENAI_TOOL_NAME) then Some (py_get attrs GENAI_TOOL_NAME)
      else if k = OI_METADATA_AGENT_NAME \<and> truthy (py_get attrs GENAI_AGENT_NAME) then Some (py_get attrs GENAI_AGENT_NAME)
      else if k = OI_METADATA_PROVIDER \<and> truthy (py_get attrs GENAI_PROVIDER_NAME) then Some (py_get attrs GENAI_PROVIDER_NAME)
      else if k = OI_METADATA_MODEL \<and> truthy (py_get attrs GENAI_REQUEST_MODEL) then Some (py_get attrs GENAI_REQUEST_MODEL)
      else e k)"
  by (simp add: metadata_block_def Let_def copy_if_truthy_apply)

subsection \<open>What the translator returns, and when it raises\<close>

lemma convert_Inr_blocks:
  assumes "convert_genai_to_openinference attrs = Inr extra"
  obtains e1 e2 where "span_kind_block attrs Map.empty = Inr e1"
    and "token_block attrs e1 = Inr e2"
    and "extra = metadata_block attrs (payload_block attrs e2)"
  using assms by (auto simp: convert_genai_to_openinference_def split: sum.splits)

lemma convert_Inl_iff:
  "convert_genai_to_openinference attrs = Inl x \<longleftrightarrow>
     x = TypeError \<and>
     (truthy (py_get attrs GENAI_OPERATION_NAME) \<and> \<not> hashable (py_get attrs GENAI_OPERATION_NAME)
      \<or> py_get attrs GENAI_USAGE_INPUT_TOKENS \<noteq> VNone \<and> py_get attrs GENAI_USAGE_OUTPUT_TOKENS \<noteq> VNone \<and>
        py_add (py_get attrs GENAI_USAGE_INPUT_TOKENS) (py_get attrs GENAI_USAGE_OUTPUT_TOKENS) = Inl TypeError)"
proof (cases "span_kind_block attrs Map.empty")
  case (Inl y)
  then have "convert_genai_to_openinference attrs = Inl y"
    by (simp add: convert_genai_to_openinference_def)
  then show ?thesis
    using Inl span_kind_block_Inl_iff [of attrs Map.empty y] by auto
next
  case (Inr e1)
  then have ok: "\<not> (truthy (py_get attrs GENAI_OPERATION_NAME) \<and>
      \<not> hashable (py_get attrs GENAI_OPERATION_NAME))"
    using span_kind_block_Inl_iff [of attrs Map.empty TypeError] by auto
  have "convert_genai_to_openinference attrs = Inl x \<longleftrightarrow> token_block attrs e1 = Inl x"
    using Inr by (simp add: convert_genai_to_openinference_def split: sum.splits)
  then show ?thesis
    using ok token_block_Inl_iff [of attrs e1 x] by blast
qed

lemma convert_span_kind:
  assumes "convert_genai_to_openinference attrs = Inr extra"
  shows "extra OI_SPAN_KIND =
     (if truthy (py_get attrs GENAI_OPERATION_NAME)
      then Some (VStr (case py_get attrs GENAI_OPERATION_NAME of
                  VStr s \<Rightarrow> (case map_of OPERATION_TO_SPAN_KIND s of Some v \<Rightarrow> v | None \<Rightarrow> ''CHAIN'')
                | _ \<Rightarrow> ''CHAIN''))
      else None)"
proof -
  from assms obtain e1 e2 where b1: "span_kind_block attrs Map.empty = Inr e1"
    and b2: "token_block attrs e1 = Inr e2"
    and ex: "extra = metadata_block attrs (payload_block attrs e2)"
    by (rule convert_Inr_blocks)
  have "extra OI_SPAN_KIND = e2 OI_SPAN_KIND"
    by (simp add: ex metadata_block_apply payload_block_apply)
  also have "\<dots> = e1 OI_SPAN_KIND"
    using token_block_Inr(4) [OF b2, of OI_SPAN_KIND] by simp
  finally show ?thesis
    using b1 by (auto simp: span_kind_block_eq Let_def split: if_splits)
qed

lemma convert_tokens:
  assumes "convert_genai_to_openinference attrs = Inr extra"
  shows "extra OI_LLM_TOKEN_PROMPT =
           (if py_get attrs GENAI_USAGE_INPUT_TOKENS \<noteq> VNone
            then Some (py_get attrs GENAI_USAGE_INPUT_TOKENS) else None)"
    and "extra OI_LLM_TOKEN_COMPLETION =
           (if py_get attrs GENAI_USAGE_OUTPUT_TOKENS \<noteq> VNone
            then Some (py_get attrs GENAI_USAGE_OUTPUT_TOKENS) else None)"
    and "extra OI_LLM_TOKEN_TOTAL =
           (if py_get attrs GENAI_USAGE_INPUT_TOKENS \<noteq> VNone \<and> py_get attrs GENAI_USAGE_OUTPUT_TOKENS \<noteq> VNone
            then (case py_add (py_get attrs GENAI_USAGE_INPUT_TOKENS) (py_get attrs GENAI_USAGE_OUTPUT_TOKENS) of Inr v \<Rightarrow> Some v | Inl x \<Rightarrow> None) else None)"
proof -
  from assms obtain e1 e2 where b1: "span_kind_block attrs Map.empty = Inr e1"
    and b2: "token_block attrs e1 = Inr e2"
    and ex: "extra = metadata_block attrs (payload_block attrs e2)"
    by (rule convert_Inr_blocks)
  have e1: "e1 OI_LLM_TOKEN_PROMPT = None" "e1 OI_LLM_TOKEN_COMPLETION = None" "e1 OI_LLM_TOKEN_TOTAL = None"
    using b1 by (auto simp: span_kind_block_eq Let_def split: if_splits)
  have "extra OI_LLM_TOKEN_PROMPT = e2 OI_LLM_TOKEN_PROMPT"
    by (simp add: ex metadata_block_apply payload_block_apply)
  then show "extra OI_LLM_TOKEN_PROMPT =
           (if py_get attrs GENAI_USAGE_INPUT_TOKENS \<noteq> VNone
            then Some (py_get attrs GENAI_USAGE_INPUT_TOKENS) else None)"
    using token_block_Inr(1) [OF b2] e1 by simp
  have "extra OI_LLM_TOKEN_COMPLETION = e2 OI_LLM_TOKEN_COMPLETION"
    by (simp add: ex metadata_block_apply payload_block_apply)
  then show "extra OI_LLM_TOKEN_COMPLETION =
           (if py_get attrs GENAI_USAGE_OUTPUT_TOKENS \<noteq> VNone
            then Some (py_get attrs GENAI_USAGE_OUTPUT_TOKENS) else None)"
    using token_block_Inr(2) [OF b2] e1 by simp
  have "extra OI_LLM_TOKEN_TOTAL = e2 OI_LLM_TOKEN_TOTAL"
    by (simp add: ex metadata_block_apply payload_block_apply)
  then show "extra OI_LLM_TOKEN_TOTAL =
           (if py_get attrs GENAI_USAGE_INPUT_TOKENS \<noteq> VNone \<and> py_get attrs GENAI_USAGE_OUTPUT_TOKENS \<noteq> VNone
            then (case py_add (py_get attrs GENAI_USAGE_INPUT_TOKENS) (py_get attrs GENAI_USAGE_OUTPUT_TOKENS) of Inr v \<Rightarrow> Some v | Inl x \<Rightarrow> None) else None)"
    using token_block_Inr(3) [OF b2] e1 by simp
qed

lemma convert_other:
  assumes "convert_genai_to_openinference attrs = Inr extra"
    and "k \<noteq> OI_SPAN_KIND" "k \<noteq> OI_LLM_TOKEN_PROMPT" "k \<noteq> OI_LLM_TOKEN_COMPLETION"
      "k \<noteq> OI_LLM_TOKEN_TOTAL"
  shows "extra k = metadata_block attrs (payload_block attrs Map.empty) k"
proof -
  from assms obtain e1 e2 where b1: "span_kind_block attrs Map.empty = Inr e1"
    and b2: "token_block attrs e1 = Inr e2"
    and ex: "extra = metadata_block attrs (payload_block attrs e2)"
    by (auto elim: convert_Inr_blocks)
  have "e1 k = None"
    using b1 assms(2) by (auto simp: span_kind_block_eq Let_def split: if_splits)
  then have "e2 k = None"
    using token_block_Inr(4) [OF b2, of k] assms by simp
  then show ?thesis
    by (simp add: ex metadata_block_apply payload_block_apply)
qed

lemma convert_dom_target:
  assumes "convert_genai_to_openinference attrs = Inr extra"
  shows "dom extra \<subseteq> set target_keys"
proof
  fix k assume "k \<in> dom extra"
  then have ne: "extra k \<noteq> None" by auto
  show "k \<in> set target_keys"
  proof (rule ccontr)
    assume "k \<notin> set target_keys"
    then have k: "k \<noteq> OI_SPAN_KIND" "k \<noteq> OI_LLM_TOKEN_PROMPT" "k \<noteq> OI_LLM_TOKEN_COMPLETION"
      "k \<noteq> OI_LLM_TOKEN_TOTAL" "k \<noteq> OI_INPUT_VALUE" "k \<noteq> OI_INPUT_MIME_TYPE"
      "k \<noteq> OI_OUTPUT_VALUE" "k \<noteq> OI_OUTPUT_MIME_TYPE" "k \<noteq> OI_METADATA_MODEL"
      "k \<noteq> OI_METADATA_PROVIDER" "k \<noteq> OI_METADATA_AGENT_NAME" "k \<noteq> OI_METADATA_TOOL_NAME"
      "k \<noteq> OI_METADATA_CONVERSATION_ID"
      by (auto simp: target_keys_def)
    have "extra k = None"
      using convert_other [OF assms k(1-4)] k(5-13)
      by (simp add: metadata_block_apply payload_block_apply)
    with ne show False by simp
  qed
qed

lemma source_target_disjoint: "set source_keys \<inter> set target_keys = {}"
  by (simp add: source_keys_def target_keys_def)

lemma convert_cong:
  assumes "\<forall>k \<in> set source_keys. py_get a k = py_get b k"
  shows "convert_genai_to_openinference a = convert_genai_to_openinference b"
proof -
  have eqs: "py_get a GENAI_OPERATION_NAME = py_get b GENAI_OPERATION_NAME"
    "py_get a GENAI_USAGE_INPUT_TOKENS = py_get b GENAI_USAGE_INPUT_TOKENS"
    "py_get a GENAI_USAGE_OUTPUT_TOKENS = py_get b GENAI_USAGE_OUTPUT_TOKENS"
    "py_get a AGENTSCOPE_FUNCTION_INPUT = py_get b AGENTSCOPE_FUNCTION_INPUT"
    "py_get a AGENTSCOPE_FUNCTION_OUTPUT = py_get b AGENTSCOPE_FUNCTION_OUTPUT"
    "py_get a GENAI_REQUEST_MODEL = py_get b GENAI_REQUEST_MODEL"
    "py_get a GENAI_PROVIDER_NAME = py_get b GENAI_PROVIDER_NAME"
    "py_get a GENAI_AGENT_NAME = py_get b GENAI_AGENT_NAME"
    "py_get a GENAI_TOOL_NAME = py_get b GENAI_TOOL_NAME"
    "py_get a GENAI_CONVERSATION_ID = py_get b GENAI_CONVERSATION_ID"
    using assms by (simp_all add: source_keys_def)
  have 1: "span_kind_block a = span_kind_block b"
    by (rule ext) (simp add: span_kind_block_def eqs)
  have 2: "token_block a = token_block b"
    by (rule ext) (simp add: token_block_def eqs)
  have 3: "payload_block a = payload_block b"
    by (rule ext) (simp add: payload_block_def eqs)
  have 4: "metadata_block a = metadata_block b"
    by (rule ext) (simp add: metadata_block_def copy_if_truthy_def eqs)
  show ?thesis
    unfolding convert_genai_to_openinference_def 1 2 3 4 by (rule refl)
qed

lemma py_get_add_source:
  assumes "dom extra \<subseteq> set target_keys" and "k \<in> set source_keys"
  shows "py_get (a ++ extra) k = py_get a k"
proof -
  have "k \<notin> set target_keys"
    using assms(2) source_target_disjoint by blast
  then have "extra k = None"
    using assms(1) by blast
  then show ?thesis
    by (simp add: py_get_def map_add_def)
qed

lemma convert_empty: "convert_genai_to_openinference Map.empty = Inr Map.empty"
proof -
  have g: "py_get Map.empty k = VNone" for k
    by (simp add: py_get_def)
  show ?thesis
    by (simp add: convert_genai_to_openinference_def span_kind_block_def token_block_def
      payload_block_def metadata_block_def copy_if_truthy_def g)
qed

lemma table_miss:
  assumes "v \<notin> set (map (VStr \<circ> fst) OPERATION_TO_SPAN_KIND)"
  shows "(case v of
          VStr s \<Rightarrow> (case map_of OPERATION_TO_SPAN_KIND s of Some k \<Rightarrow> k | None \<Rightarrow> ''CHAIN'')
        | _ \<Rightarrow> ''CHAIN'') = ''CHAIN''"
proof (cases v)
  case (VStr s)
  then have "s \<notin> fst ` set OPERATION_TO_SPAN_KIND"
    using assms by force
  then have "map_of OPERATION_TO_SPAN_KIND s = None"
    by (simp add: map_of_eq_None_iff)
  then show ?thesis using VStr by simp
qed simp_all

lemma table_chat: "map_of OPERATION_TO_SPAN_KIND ''chat'' = Some ''LLM''"
  by (simp add: OPERATION_TO_SPAN_KIND_def)

subsection \<open>The examples, evaluated\<close>

lemma scenario_get:
  "py_get scenario_attrs GENAI_OPERATION_NAME = VStr ''execute_tool''"
  "py_get scenario_attrs GENAI_USAGE_INPUT_TOKENS = VInt 12"
  "py_get scenario_attrs GENAI_USAGE_OUTPUT_TOKENS = VInt 5"
  "py_get scenario_attrs AGENTSCOPE_FUNCTION_INPUT = VNone"
  "py_get scenario_attrs AGENTSCOPE_FUNCTION_OUTPUT = VNone"
  "py_get scenario_attrs GENAI_REQUEST_MODEL = VNone"
  "py_get scenario_attrs GENAI_PROVIDER_NAME = VNone"
  "py_get scenario_attrs GENAI_AGENT_NAME = VNone"
  "py_get scenario_attrs GENAI_TOOL_NAME = VStr ''search''"
  "py_get scenario_attrs GENAI_CONVERSATION_ID = VNone"
  by (simp_all add: scenario_attrs_def py_get_def)

lemma convert_scenario:
  "convert_genai_to_openinference scenario_attrs = Inr scenario_extra"
  by (simp add: convert_genai_to_openinference_def span_kind_block_def token_block_def
      payload_block_def metadata_block_def copy_if_truthy_def scenario_get dict_get_def
      OPERATION_TO_SPAN_KIND_def scenario_extra_def)

lemma convert_summarize:
  "convert_genai_to_openinference [GENAI_OPERATION_NAME \<mapsto> VStr ''summarize'']
     = Inr [OI_SPAN_KIND \<mapsto> VStr ''CHAIN'']"
proof -
  have g: "py_get [GENAI_OPERATION_NAME \<mapsto> VStr ''summarize''] GENAI_OPERATION_NAME = VStr ''summarize''"
    "py_get [GENAI_OPERATION_NAME \<mapsto> VStr ''summarize''] GENAI_USAGE_INPUT_TOKENS = VNone"
    "py_get [GENAI_OPERATION_NAME \<mapsto> VStr ''summarize''] GENAI_USAGE_OUTPUT_TOKENS = VNone"
    "py_get [GENAI_OPERATION_NAME \<mapsto> VStr ''summarize''] AGENTSCOPE_FUNCTION_INPUT = VNone"
    "py_get [GENAI_OPERATION_NAME \<mapsto> VStr ''summarize''] AGENTSCOPE_FUNCTION_OUTPUT = VNone"
    "py_get [GENAI_OPERATION_NAME \<mapsto> VStr ''summarize''] GENAI_REQUEST_MODEL = VNone"
    "py_get [GENAI_OPERATION_NAME \<mapsto> VStr ''summarize''] GENAI_PROVIDER_NAME = VNone"
    "py_get [GENAI_OPERATION_NAME \<mapsto> VStr ''summarize''] GENAI_AGENT_NAME = VNone"
    "py_get [GENAI_OPERATION_NAME \<mapsto> VStr ''summarize''] GENAI_TOOL_NAME = VNone"
    "py_get [GENAI_OPERATION_NAME \<mapsto> VStr ''summarize''] GENAI_CONVERSATION_ID = VNone"
    by (simp_all add: py_get_def)
  show ?thesis
    by (simp add: convert_genai_to_openinference_def span_kind_block_def token_block_def
      payload_block_def metadata_block_def copy_if_truthy_def g dict_get_def
      OPERATION_TO_SPAN_KIND_def)
qed

lemma falsy_get:
  "py_get falsy_attrs GENAI_OPERATION_NAME = VStr ''''"
  "py_get falsy_attrs GENAI_USAGE_INPUT_TOKENS = VInt 0"
  "py_get falsy_attrs GENAI_USAGE_OUTPUT_TOKENS = VInt 5"
  "py_get falsy_attrs AGENTSCOPE_FUNCTION_INPUT = VList []"
  "py_get falsy_attrs AGENTSCOPE_FUNCTION_OUTPUT = VNone"
  "py_get falsy_attrs GENAI_REQUEST_MODEL = VInt 0"
  "py_get falsy_attrs GENAI_PROVIDER_NAME = VNone"
  "py_get falsy_attrs GENAI_AGENT_NAME = VNone"
  "py_get falsy_attrs GENAI_TOOL_NAME = VNone"
  "py_get falsy_attrs GENAI_CONVERSATION_ID = VNone"
  by (simp_all add: falsy_attrs_def py_get_def)

lemma convert_falsy:
  "convert_genai_to_openinference falsy_attrs = Inr falsy_extra"
  by (simp add: convert_genai_to_openinference_def span_kind_block_def token_block_def
      payload_block_def metadata_block_def copy_if_truthy_def falsy_get falsy_extra_def Let_def)

lemma scenario_attrs_nonempty: "scenario_attrs \<noteq> Map.empty"
  by (simp add: scenario_attrs_def)

lemma scenario_extra_nonempty: "scenario_extra \<noteq> Map.empty"
  by (simp add: scenario_extra_def)

lemma attributes_scenario_span: "attributes scenario_span = Some scenario_attrs"
  by (simp add: scenario_span_def)

lemma attributes_bare_span: "attributes bare_span = None"
  by (simp add: bare_span_def plain_rec_def)

subsection \<open>Converting spans and batches\<close>

lemma ConvertedSpan_neq: "ConvertedSpan s m \<noteq> s"
  by (induction s arbitrary: m) auto

lemma ConvertedSpan_init_neq: "ConvertedSpan_init s extra \<noteq> s"
  by (simp add: ConvertedSpan_init_def Let_def ConvertedSpan_neq)

lemma convert_span_cases:
  assumes "convert_span s = Inr c"
  shows "c = s \<or> (\<exists>a extra. attributes s = Some a \<and>
            convert_genai_to_openinference a = Inr extra \<and> extra \<noteq> Map.empty \<and>
            c = ConvertedSpan_init s extra)"
  using assms by (auto simp: convert_span_def split: option.splits if_splits sum.splits)

lemma convert_span_passthrough:
  assumes "attributes s = None \<or>
           (\<exists>a. attributes s = Some a \<and> convert_genai_to_openinference a = Inr Map.empty)"
  shows "convert_span s = Inr s"
  using assms by (auto simp: convert_span_def)

lemma convert_spans_Inr:
  assumes "convert_spans spans = Inr out"
  shows "length out = length spans \<and>
         (\<forall>i < length spans. convert_span (spans ! i) = Inr (out ! i))"
  using assms
proof (induction spans arbitrary: out)
  case Nil
  then show ?case by simp
next
  case (Cons s ss)
  from Cons.prems obtain c cs where c: "convert_span s = Inr c"
    and cs: "convert_spans ss = Inr cs" and out: "out = c # cs"
    by (auto split: sum.splits)
  have ih: "length cs = length ss \<and> (\<forall>i < length ss. convert_span (ss ! i) = Inr (cs ! i))"
    by (rule Cons.IH [OF cs])
  show ?case
  proof (intro conjI allI impI)
    show "length out = length (s # ss)" using ih out by simp
  next
    fix i assume "i < length (s # ss)"
    then show "convert_span ((s # ss) ! i) = Inr (out ! i)"
      using ih c out by (cases i) auto
  qed
qed

lemma convert_span_scenario:
  "convert_span scenario_span = Inr (ConvertedSpan_init scenario_span scenario_extra)"
  by (simp add: convert_span_def attributes_scenario_span scenario_attrs_nonempty
      convert_scenario scenario_extra_nonempty)

lemma convert_span_bare: "convert_span bare_span = Inr bare_span"
  by (simp add: convert_span_def attributes_bare_span)

lemma convert_spans_example:
  "convert_spans [scenario_span, bare_span]
     = Inr [ConvertedSpan_init scenario_span scenario_extra, bare_span]"
  by (simp add: convert_span_scenario convert_span_bare)

lemma convert_span_mixed: "convert_span mixed_span = Inl TypeError"
proof -
  have c: "convert_genai_to_openinference
       [GENAI_USAGE_INPUT_TOKENS \<mapsto> VInt 1, GENAI_USAGE_OUTPUT_TOKENS \<mapsto> VStr ''x'']
     = Inl TypeError"
    by (simp add: convert_Inl_iff py_get_def)
  show ?thesis
    by (simp add: convert_span_def mixed_span_def c)
qed

lemma convert_span_same_context:
  assumes "convert_span s = Inr c"
  shows "context_of c = context_of s"
  using convert_span_cases [OF assms] by (auto simp: ConvertedSpan_init_def Let_def)

lemma convert_spans_same_contexts:
  assumes "convert_spans spans = Inr converted"
  shows "map context_of converted = map context_of spans"
  using assms
proof (induction spans arbitrary: converted)
  case Nil
  then show ?case by simp
next
  case (Cons s ss)
  from Cons.prems obtain c cs where c: "convert_span s = Inr c"
    and cs: "convert_spans ss = Inr cs" and out: "converted = c # cs"
    by (auto split: sum.splits)
  show ?case
    using Cons.IH [OF cs] convert_span_same_context [OF c] out by simp
qed

lemma log_exported_no_error:
  assumes "\<forall>s \<in> set spans. context_of s \<noteq> None"
  shows "fst (log_exported spans records) = None"
  using assms
  by (induction spans arbitrary: records) (auto split: option.splits)

lemma export_Inr:
  assumes "convert_spans spans = Inr converted"
  shows "sink_calls (snd (GenAIToOpenInferenceExporter_export wrapped spans w))
           = sink_calls w @ [converted]"
    and "sink_state (snd (GenAIToOpenInferenceExporter_export wrapped spans w))
           = snd (wrapped converted (sink_state w))"
  using assms
  by (auto simp: GenAIToOpenInferenceExporter_export_def Let_def
      split: prod.splits sum.splits option.splits)

lemma export_Inr_raised:
  assumes "convert_spans spans = Inr converted"
    and "fst (wrapped converted (sink_state w)) = Inl e"
  shows "fst (GenAIToOpenInferenceExporter_export wrapped spans w) = Inl e"
  using assms
  by (auto simp: GenAIToOpenInferenceExporter_export_def Let_def
      split: prod.splits sum.splits option.splits)

lemma export_Inr_result:
  assumes "convert_spans spans = Inr converted"
    and "\<forall>s \<in> set spans. context_of s \<noteq> None"
  shows "fst (GenAIToOpenInferenceExporter_export wrapped spans w)
           = fst (wrapped converted (sink_state w))"
proof -
  have "set (map context_of converted) = set (map context_of spans)"
    using convert_spans_same_contexts [OF assms(1)] by simp
  then have "\<forall>s \<in> set converted. context_of s \<noteq> None"
    using assms(2) by (metis (no_types, lifting) image_iff list.set_map)
  then have n: "fst (log_exported converted (log_records w)) = None"
    by (rule log_exported_no_error)
  obtain r st where ws: "wrapped converted (sink_state w) = (r, st)"
    by (cases "wrapped converted (sink_state w)") auto
  obtain x records where lg: "log_exported converted (log_records w) = (x, records)"
    by (cases "log_exported converted (log_records w)") auto
  with n have x: "x = None" by simp
  show ?thesis
  proof (cases r)
    case (Inl e)
    then show ?thesis
      using export_Inr_raised [of spans converted wrapped w e] assms(1) ws by simp
  next
    case (Inr result)
    then show ?thesis
      using assms(1) ws lg x
      by (simp add: GenAIToOpenInferenceExporter_export_def)
  qed
qed

lemma export_Inl:
  assumes "convert_spans spans = Inl e"
  shows "GenAIToOpenInferenceExporter_export wrapped spans w = (Inl e, w)"
  using assms by (simp add: GenAIToOpenInferenceExporter_export_def)

lemma export_no_context:
  "GenAIToOpenInferenceExporter_export success_sink [no_context_span] world0
     = (Inl AttributeError, world0\<lparr>sink_calls := [[no_context_span]]\<rparr>)"
proof -
  have c: "convert_spans [no_context_span] = Inr [no_context_span]"
    by (simp add: convert_span_def no_context_span_def plain_rec_def)
  have n: "context_of no_context_span = None"
    by (simp add: no_context_span_def)
  show ?thesis
    unfolding GenAIToOpenInferenceExporter_export_def c
    by (simp add: success_sink_def world0_def n)
qed

subsection \<open>The Phoenix setup\<close>

text \<open>
  Claim C1, as the code has it. For every endpoint and project name,
  \<^verbatim>\<open>setup_phoenix_tracing\<close> attaches one translating processor, whose delivery policy
  is the immediate one (\<^verbatim>\<open>SimpleSpanProcessor\<close>), built around the translating exporter
  that wraps the OTLP exporter carrying the project header: it never passes \<^verbatim>\<open>batch\<close>,
  whose default is \<^verbatim>\<open>False\<close>.
\<close>

theorem phoenix_setup_policy:
  "map policy_of (provider_processors (setup_phoenix_tracing endpoint project_name)) =
     [SimpleSpanProcessor (GenAIToOpenInferenceExporter
        (OTLPSpanExporter endpoint
           [(''phoenix-project-name'',
             case project_name of
               None \<Rightarrow> ''agentscope''
             | Some p \<Rightarrow> if p = [] then ''agentscope'' else p)]))]
   \<and> map (is_batch \<circ> policy_of)
        (provider_processors (setup_phoenix_tracing endpoint project_name)) = [False]"
  by (simp add: setup_phoenix_tracing_def GenAIToOpenInferenceProcessor_init_def
      add_span_processor_def Let_def)

text \<open>
  The claim as first stated, the buffered policy, fails at every call; here at the endpoint
  of the docstring and the project \<^verbatim>\<open>demo\<close>.
\<close>

theorem phoenix_setup_counterexample:
  "provider_processors (setup_phoenix_tracing ''http://localhost:6006/v1/traces'' (Some ''demo''))
     = [GenAIToOpenInferenceProcessor (SimpleSpanProcessor (GenAIToOpenInferenceExporter
          (OTLPSpanExporter ''http://localhost:6006/v1/traces''
             [(''phoenix-project-name'', ''demo'')])))]
   \<and> \<not> is_batch (SimpleSpanProcessor (GenAIToOpenInferenceExporter
          (OTLPSpanExporter ''http://localhost:6006/v1/traces''
             [(''phoenix-project-name'', ''demo'')])))"
  by (simp add: setup_phoenix_tracing_def GenAIToOpenInferenceProcessor_init_def
      add_span_processor_def Let_def)

subsection \<open>Token accounting\<close>

text \<open>
  Claim C2. Whenever the translator returns a derived mapping, that mapping has the total
  key exactly when both token counts are present with a value other than \<^verbatim>\<open>None\<close>;
  its value is then what Python's \<^verbatim>\<open>input_tokens + output_tokens\<close> gives, which is the
  arithmetic sum when both counts are integers; and when either count is absent the
  total key is absent.
\<close>

theorem token_total_sum:
  assumes "convert_genai_to_openinference attrs = Inr extra"
  shows "(OI_LLM_TOKEN_TOTAL \<in> dom extra \<longleftrightarrow>
            py_get attrs GENAI_USAGE_INPUT_TOKENS \<noteq> VNone \<and>
            py_get attrs GENAI_USAGE_OUTPUT_TOKENS \<noteq> VNone)
       \<and> (\<forall>t. extra OI_LLM_TOKEN_TOTAL = Some t \<longrightarrow>
              py_add (py_get attrs GENAI_USAGE_INPUT_TOKENS)
                     (py_get attrs GENAI_USAGE_OUTPUT_TOKENS) = Inr t)
       \<and> (\<forall>a b. py_get attrs GENAI_USAGE_INPUT_TOKENS = VInt a \<and>
                 py_get attrs GENAI_USAGE_OUTPUT_TOKENS = VInt b \<longrightarrow>
                 extra OI_LLM_TOKEN_TOTAL = Some (VInt (a + b)))
       \<and> (py_get attrs GENAI_USAGE_INPUT_TOKENS = VNone \<or>
          py_get attrs GENAI_USAGE_OUTPUT_TOKENS = VNone \<longrightarrow>
          extra OI_LLM_TOKEN_TOTAL = None)"
proof -
  define i where "i = py_get attrs GENAI_USAGE_INPUT_TOKENS"
  define o' where "o' = py_get attrs GENAI_USAGE_OUTPUT_TOKENS"
  define r where "r = extra OI_LLM_TOKEN_TOTAL"
  have tot: "r = (if i \<noteq> VNone \<and> o' \<noteq> VNone
            then (case py_add i o' of Inr v \<Rightarrow> Some v | Inl x \<Rightarrow> None) else None)"
    unfolding r_def i_def o'_def by (rule convert_tokens(3) [OF assms])
  have ok: "py_add i o' \<noteq> Inl x" if "i \<noteq> VNone" "o' \<noteq> VNone" for x
  proof
    assume a: "py_add i o' = Inl x"
    then have "x = TypeError" by (rule py_add_Inl)
    with a that have "convert_genai_to_openinference attrs = Inl TypeError"
      unfolding i_def o'_def by (simp add: convert_Inl_iff)
    with assms show False by simp
  qed
  have 1: "r \<noteq> None \<longleftrightarrow> i \<noteq> VNone \<and> o' \<noteq> VNone"
    using tot ok by (cases "py_add i o'") auto
  have 2: "\<forall>t. r = Some t \<longrightarrow> py_add i o' = Inr t"
    using tot by (cases "py_add i o'") (auto split: if_splits)
  have 3: "\<forall>a b. i = VInt a \<and> o' = VInt b \<longrightarrow> r = Some (VInt (a + b))"
    using tot by auto
  have 4: "i = VNone \<or> o' = VNone \<longrightarrow> r = None"
    using tot by auto
  have d: "OI_LLM_TOKEN_TOTAL \<in> dom extra \<longleftrightarrow> r \<noteq> None"
    unfolding r_def by (simp add: dom_def)
  show ?thesis
    using 1 2 3 4 unfolding d unfolding r_def i_def o'_def by blast
qed

theorem token_total_sum_witness:
  "convert_genai_to_openinference scenario_attrs = Inr scenario_extra
   \<and> OI_LLM_TOKEN_TOTAL \<in> dom scenario_extra
   \<and> py_get scenario_attrs GENAI_USAGE_INPUT_TOKENS = VInt 12
   \<and> py_get scenario_attrs GENAI_USAGE_OUTPUT_TOKENS = VInt 5
   \<and> scenario_extra OI_LLM_TOKEN_TOTAL = Some (VInt 17)"
proof -
  note t = token_total_sum [OF convert_scenario]
  have d: "OI_LLM_TOKEN_TOTAL \<in> dom scenario_extra"
    using t [THEN conjunct1] by (simp add: scenario_get)
  have s: "scenario_extra OI_LLM_TOKEN_TOTAL = Some (VInt 17)"
    using t [THEN conjunct2, THEN conjunct2, THEN conjunct1, rule_format, of 12 5]
    by (simp add: scenario_get)
  show ?thesis
    using d s convert_scenario scenario_get(2,3) by blast
qed

text \<open>The claim as first stated, for every attribute mapping, fails: with an integer
  and a string count both keys are present, the addition raises \<^verbatim>\<open>TypeError\<close> and no
  derived mapping, hence no total, comes out.\<close>

theorem token_total_counterexample:
  "GENAI_USAGE_INPUT_TOKENS \<in>
     dom [GENAI_USAGE_INPUT_TOKENS \<mapsto> VInt 1, GENAI_USAGE_OUTPUT_TOKENS \<mapsto> VStr ''x'']
   \<and> GENAI_USAGE_OUTPUT_TOKENS \<in>
     dom [GENAI_USAGE_INPUT_TOKENS \<mapsto> VInt 1, GENAI_USAGE_OUTPUT_TOKENS \<mapsto> VStr ''x'']
   \<and> convert_genai_to_openinference
       [GENAI_USAGE_INPUT_TOKENS \<mapsto> VInt 1, GENAI_USAGE_OUTPUT_TOKENS \<mapsto> VStr ''x'']
     = Inl TypeError"
  by (simp add: convert_Inl_iff py_get_def)

subsection \<open>Operation-name classification\<close>

text \<open>
  Claim C3. Whenever the translator returns a derived mapping: with no operation-name
  key there is no span-kind key; the operation name \<^verbatim>\<open>"chat"\<close> gives the span kind
  \<^verbatim>\<open>"LLM"\<close>; an operation name that is truthy and not a key of the lookup table gives
  \<^verbatim>\<open>"CHAIN"\<close>; and an operation name that is present but falsy gives no span-kind key.
\<close>

theorem span_kind_classification:
  assumes "convert_genai_to_openinference attrs = Inr extra"
  shows "(attrs GENAI_OPERATION_NAME = None \<longrightarrow> extra OI_SPAN_KIND = None)
       \<and> (attrs GENAI_OPERATION_NAME = Some (VStr ''chat'') \<longrightarrow>
            extra OI_SPAN_KIND = Some (VStr ''LLM''))
       \<and> (\<forall>v. attrs GENAI_OPERATION_NAME = Some v \<and> truthy v \<and>
               v \<notin> set (map (VStr \<circ> fst) OPERATION_TO_SPAN_KIND) \<longrightarrow>
               extra OI_SPAN_KIND = Some (VStr ''CHAIN''))
       \<and> (\<forall>v. attrs GENAI_OPERATION_NAME = Some v \<and> \<not> truthy v \<longrightarrow>
               extra OI_SPAN_KIND = None)"
proof -
  define r where "r = extra OI_SPAN_KIND"
  define a where "a = attrs GENAI_OPERATION_NAME"
  define op_name where "op_name = py_get attrs GENAI_OPERATION_NAME"
  have op: "op_name = (case a of None \<Rightarrow> VNone | Some v \<Rightarrow> v)"
    by (simp add: op_name_def a_def py_get_def)
  have k: "r = (if truthy op_name
      then Some (VStr (case op_name of
                  VStr s \<Rightarrow> (case map_of OPERATION_TO_SPAN_KIND s of Some v \<Rightarrow> v | None \<Rightarrow> ''CHAIN'')
                | _ \<Rightarrow> ''CHAIN''))
      else None)"
    unfolding r_def op_name_def by (rule convert_span_kind [OF assms])
  have 1: "a = None \<longrightarrow> r = None"
    using k op by simp
  have 2: "a = Some (VStr ''chat'') \<longrightarrow> r = Some (VStr ''LLM'')"
    using k op table_chat by simp
  have 3: "\<forall>v. a = Some v \<and> truthy v \<and>
               v \<notin> set (map (VStr \<circ> fst) OPERATION_TO_SPAN_KIND) \<longrightarrow>
               r = Some (VStr ''CHAIN'')"
  proof (intro allI impI)
    fix v
    assume h: "a = Some v \<and> truthy v \<and> v \<notin> set (map (VStr \<circ> fst) OPERATION_TO_SPAN_KIND)"
    then have "op_name = v" using op by simp
    then show "r = Some (VStr ''CHAIN'')"
      using k h table_miss [of v] by simp
  qed
  have 4: "\<forall>v. a = Some v \<and> \<not> truthy v \<longrightarrow> r = None"
    using k op by simp
  show ?thesis
    using 1 2 3 4 unfolding r_def a_def by blast
qed

theorem span_kind_classification_witness:
  "convert_genai_to_openinference [GENAI_OPERATION_NAME \<mapsto> VStr ''summarize'']
     = Inr [OI_SPAN_KIND \<mapsto> VStr ''CHAIN'']
   \<and> truthy (VStr ''summarize'')
   \<and> VStr ''summarize'' \<notin> set (map (VStr \<circ> fst) OPERATION_TO_SPAN_KIND)
   \<and> [OI_SPAN_KIND \<mapsto> VStr ''CHAIN''] OI_SPAN_KIND = Some (VStr ''CHAIN'')"
proof -
  have a: "truthy (VStr ''summarize'')" by simp
  have b: "VStr ''summarize'' \<notin> set (map (VStr \<circ> fst) OPERATION_TO_SPAN_KIND)"
    by (simp add: OPERATION_TO_SPAN_KIND_def)
  have c: "[GENAI_OPERATION_NAME \<mapsto> VStr ''summarize''] GENAI_OPERATION_NAME = Some (VStr ''summarize'')"
    by simp
  have "[OI_SPAN_KIND \<mapsto> VStr ''CHAIN''] OI_SPAN_KIND = Some (VStr ''CHAIN'')"
    using span_kind_classification [OF convert_summarize, THEN conjunct2, THEN conjunct2,
        THEN conjunct1, rule_format, of "VStr ''summarize''"] a b c
    by blast
  then show ?thesis
    using a b convert_summarize by blast
qed

text \<open>The claim as first stated, for every present value outside the table, fails at the
  empty string: the key is present, the value is not in the table, and the derived
  mapping is empty.\<close>

theorem span_kind_counterexample:
  "[GENAI_OPERATION_NAME \<mapsto> VStr ''''] GENAI_OPERATION_NAME = Some (VStr '''')
   \<and> VStr '''' \<notin> set (map (VStr \<circ> fst) OPERATION_TO_SPAN_KIND)
   \<and> convert_genai_to_openinference [GENAI_OPERATION_NAME \<mapsto> VStr ''''] = Inr Map.empty"
proof -
  have g: "py_get [GENAI_OPERATION_NAME \<mapsto> VStr ''''] GENAI_OPERATION_NAME = VStr ''''"
    "py_get [GENAI_OPERATION_NAME \<mapsto> VStr ''''] GENAI_USAGE_INPUT_TOKENS = VNone"
    "py_get [GENAI_OPERATION_NAME \<mapsto> VStr ''''] GENAI_USAGE_OUTPUT_TOKENS = VNone"
    "py_get [GENAI_OPERATION_NAME \<mapsto> VStr ''''] AGENTSCOPE_FUNCTION_INPUT = VNone"
    "py_get [GENAI_OPERATION_NAME \<mapsto> VStr ''''] AGENTSCOPE_FUNCTION_OUTPUT = VNone"
    "py_get [GENAI_OPERATION_NAME \<mapsto> VStr ''''] GENAI_REQUEST_MODEL = VNone"
    "py_get [GENAI_OPERATION_NAME \<mapsto> VStr ''''] GENAI_PROVIDER_NAME = VNone"
    "py_get [GENAI_OPERATION_NAME \<mapsto> VStr ''''] GENAI_AGENT_NAME = VNone"
    "py_get [GENAI_OPERATION_NAME \<mapsto> VStr ''''] GENAI_TOOL_NAME = VNone"
    "py_get [GENAI_OPERATION_NAME \<mapsto> VStr ''''] GENAI_CONVERSATION_ID = VNone"
    by (simp_all add: py_get_def)
  have c: "convert_genai_to_openinference [GENAI_OPERATION_NAME \<mapsto> VStr ''''] = Inr Map.empty"
    by (simp add: convert_genai_to_openinference_def span_kind_block_def token_block_def
      payload_block_def metadata_block_def copy_if_truthy_def g)
  show ?thesis
    using c by (simp add: OPERATION_TO_SPAN_KIND_def)
qed

subsection \<open>The result of export\<close>

text \<open>
  Claim C4, as the code has it. When the conversion of every span of the batch returns and
  every span carries a span context, \<^verbatim>\<open>export\<close> calls the wrapped exporter once, on the
  converted batch, and what it returns or raises is exactly what that call returned or
  raised. What the wrapped exporter raises, \<^verbatim>\<open>export\<close> raises, whatever the contexts.
  When a conversion raises, \<^verbatim>\<open>export\<close> raises the same error and the wrapped exporter
  is not called.
\<close>

theorem export_result_unmodified:
  "(\<forall>converted. convert_spans spans = Inr converted \<and>
        (\<forall>s \<in> set spans. context_of s \<noteq> None) \<longrightarrow>
      fst (GenAIToOpenInferenceExporter_export wrapped spans w)
        = fst (wrapped converted (sink_state w))
      \<and> sink_calls (snd (GenAIToOpenInferenceExporter_export wrapped spans w))
        = sink_calls w @ [converted]
      \<and> sink_state (snd (GenAIToOpenInferenceExporter_export wrapped spans w))
        = snd (wrapped converted (sink_state w)))
   \<and> (\<forall>converted e. convert_spans spans = Inr converted \<and>
        fst (wrapped converted (sink_state w)) = Inl e \<longrightarrow>
      fst (GenAIToOpenInferenceExporter_export wrapped spans w) = Inl e)
   \<and> (\<forall>e. convert_spans spans = Inl e \<longrightarrow>
      GenAIToOpenInferenceExporter_export wrapped spans w = (Inl e, w))"
proof -
  have 1: "\<forall>converted. convert_spans spans = Inr converted \<and>
        (\<forall>s \<in> set spans. context_of s \<noteq> None) \<longrightarrow>
      fst (GenAIToOpenInferenceExporter_export wrapped spans w)
        = fst (wrapped converted (sink_state w))
      \<and> sink_calls (snd (GenAIToOpenInferenceExporter_export wrapped spans w))
        = sink_calls w @ [converted]
      \<and> sink_state (snd (GenAIToOpenInferenceExporter_export wrapped spans w))
        = snd (wrapped converted (sink_state w))"
    using export_Inr_result [of spans _ wrapped w] export_Inr [of spans _ wrapped w]
    by blast
  have 2: "\<forall>converted e. convert_spans spans = Inr converted \<and>
        fst (wrapped converted (sink_state w)) = Inl e \<longrightarrow>
      fst (GenAIToOpenInferenceExporter_export wrapped spans w) = Inl e"
    using export_Inr_raised [of spans _ wrapped w] by blast
  have 3: "\<forall>e. convert_spans spans = Inl e \<longrightarrow>
      GenAIToOpenInferenceExporter_export wrapped spans w = (Inl e, w)"
    using export_Inl [of spans _ wrapped w] by blast
  show ?thesis
    using 1 2 3 by blast
qed

theorem export_result_unmodified_witness:
  "convert_spans [scenario_span, bare_span]
     = Inr [ConvertedSpan_init scenario_span scenario_extra, bare_span]
   \<and> context_of scenario_span = Some \<lparr>trace_id = 7, span_id = 1\<rparr>
   \<and> context_of bare_span = Some \<lparr>trace_id = 7, span_id = 1\<rparr>
   \<and> fst (GenAIToOpenInferenceExporter_export (\<lambda>batch st. (Inr FAILURE, st))
        [scenario_span, bare_span] world0) = Inr FAILURE
   \<and> fst (GenAIToOpenInferenceExporter_export (\<lambda>batch st. (Inr SUCCESS, st))
        [scenario_span, bare_span] world0) = Inr SUCCESS"
proof -
  have c: "context_of scenario_span = Some \<lparr>trace_id = 7, span_id = 1\<rparr>"
    "context_of bare_span = Some \<lparr>trace_id = 7, span_id = 1\<rparr>"
    by (simp_all add: scenario_span_def bare_span_def plain_rec_def)
  then have h: "convert_spans [scenario_span, bare_span]
        = Inr [ConvertedSpan_init scenario_span scenario_extra, bare_span]
      \<and> (\<forall>s \<in> set [scenario_span, bare_span]. context_of s \<noteq> None)"
    using convert_spans_example by simp
  have f: "fst (GenAIToOpenInferenceExporter_export (\<lambda>batch st. (Inr FAILURE, st))
        [scenario_span, bare_span] world0) = Inr FAILURE"
    using export_result_unmodified [of "[scenario_span, bare_span]"
        "\<lambda>batch st. (Inr FAILURE, st)" world0, THEN conjunct1, rule_format, OF h]
    by simp
  have s: "fst (GenAIToOpenInferenceExporter_export (\<lambda>batch st. (Inr SUCCESS, st))
        [scenario_span, bare_span] world0) = Inr SUCCESS"
    using export_result_unmodified [of "[scenario_span, bare_span]"
        "\<lambda>batch st. (Inr SUCCESS, st)" world0, THEN conjunct1, rule_format, OF h]
    by simp
  show ?thesis
    using f s c convert_spans_example by blast
qed

text \<open>
  The claim as first stated, for every batch, fails: translation fails by itself on a span
  whose token counts are an integer and a string, although the wrapped exporter would
  have reported success.
\<close>

theorem export_result_counterexample:
  "success_sink [mixed_span] (sink_state world0) = (Inr SUCCESS, sink_state world0)
   \<and> GenAIToOpenInferenceExporter_export success_sink [mixed_span] world0
       = (Inl TypeError, world0)
   \<and> sink_calls world0 = []"
  by (simp add: export_Inl convert_span_mixed success_sink_def world0_def)

subsection \<open>The batch handed to the wrapped exporter\<close>

text \<open>
  Claim C5. One call of \<^verbatim>\<open>export\<close> passes at most one batch to the wrapped exporter (none
  exactly when a conversion raised); that batch has the length of the input batch, and
  at every index it holds the input span of that index, either itself or wrapped in a
  converted span built from it.
\<close>

theorem export_order_preserved:
  "\<exists>outs. sink_calls (snd (GenAIToOpenInferenceExporter_export wrapped spans w))
             = sink_calls w @ outs
     \<and> length outs \<le> 1
     \<and> (outs = [] \<longleftrightarrow> (\<exists>e. convert_spans spans = Inl e))
     \<and> (\<forall>out \<in> set outs.
           length out = length spans \<and>
           (\<forall>i < length spans.
              out ! i = spans ! i \<or>
              (\<exists>extra. out ! i = ConvertedSpan_init (spans ! i) extra)))"
proof (cases "convert_spans spans")
  case (Inl e)
  then have "sink_calls (snd (GenAIToOpenInferenceExporter_export wrapped spans w))
      = sink_calls w @ []"
    by (simp add: export_Inl)
  then show ?thesis
    using Inl by (intro exI [of _ "[]"]) auto
next
  case (Inr out)
  have c: "sink_calls (snd (GenAIToOpenInferenceExporter_export wrapped spans w))
      = sink_calls w @ [out]"
    by (rule export_Inr(1) [OF Inr])
  have n: "length out = length spans"
    and e: "\<forall>i < length spans. convert_span (spans ! i) = Inr (out ! i)"
    using convert_spans_Inr [OF Inr] by blast+
  have p: "\<forall>i < length spans.
              out ! i = spans ! i \<or>
              (\<exists>extra. out ! i = ConvertedSpan_init (spans ! i) extra)"
  proof (intro allI impI)
    fix i assume "i < length spans"
    then have "convert_span (spans ! i) = Inr (out ! i)" using e by blast
    then show "out ! i = spans ! i \<or>
              (\<exists>extra. out ! i = ConvertedSpan_init (spans ! i) extra)"
      using convert_span_cases [of "spans ! i" "out ! i"] by blast
  qed
  show ?thesis
    using c n p Inr by (intro exI [of _ "[out]"]) auto
qed

theorem export_order_preserved_witness:
  "sink_calls (snd (GenAIToOpenInferenceExporter_export success_sink
       [scenario_span, bare_span] world0))
     = sink_calls world0 @ [[ConvertedSpan_init scenario_span scenario_extra, bare_span]]
   \<and> length [ConvertedSpan_init scenario_span scenario_extra, bare_span]
       = length [scenario_span, bare_span]
   \<and> [ConvertedSpan_init scenario_span scenario_extra, bare_span] ! 0
       = ConvertedSpan_init ([scenario_span, bare_span] ! 0) scenario_extra
   \<and> [ConvertedSpan_init scenario_span scenario_extra, bare_span] ! 1
       = [scenario_span, bare_span] ! 1"
proof -
  let ?out = "[ConvertedSpan_init scenario_span scenario_extra, bare_span]"
  let ?w = "snd (GenAIToOpenInferenceExporter_export success_sink
       [scenario_span, bare_span] world0)"
  from export_order_preserved [of success_sink "[scenario_span, bare_span]" world0]
  obtain outs where o: "sink_calls ?w = sink_calls world0 @ outs"
    and p: "\<forall>out \<in> set outs. length out = length [scenario_span, bare_span]"
    by blast
  have c: "sink_calls ?w = sink_calls world0 @ [?out]"
    by (rule export_Inr(1) [OF convert_spans_example])
  with o have "outs = [?out]" by simp
  with p have "length ?out = length [scenario_span, bare_span]" by simp
  then show ?thesis
    using c by simp
qed

subsection \<open>Spans passed through\<close>

text \<open>
  Claim C6. A span with no attributes (\<^verbatim>\<open>None\<close> or an empty mapping), and a span whose
  attributes give an empty derived mapping, is returned by \<^verbatim>\<open>_convert_span\<close> as it is, and stands as it is at its index
  of the converted batch; a converted span is never equal to the span it wraps, so no
  \<^verbatim>\<open>_ConvertedSpan\<close> was built.
\<close>

theorem passthrough_unchanged:
  "(attributes span = None \<longrightarrow> convert_span span = Inr span)
   \<and> (attributes span = Some Map.empty \<longrightarrow> convert_span span = Inr span)
   \<and> (\<forall>a. attributes span = Some a \<and> convert_genai_to_openinference a = Inr Map.empty \<longrightarrow>
          convert_span span = Inr span)
   \<and> (\<forall>extra. ConvertedSpan_init span extra \<noteq> span)
   \<and> (\<forall>out i. convert_spans spans = Inr out \<and> i < length spans \<and>
          (attributes (spans ! i) = None \<or>
           (\<exists>a. attributes (spans ! i) = Some a \<and>
                convert_genai_to_openinference a = Inr Map.empty)) \<longrightarrow>
          out ! i = spans ! i)"
proof -
  have 1: "attributes span = None \<longrightarrow> convert_span span = Inr span"
    using convert_span_passthrough [of span] by blast
  have 2: "\<forall>a. attributes span = Some a \<and> convert_genai_to_openinference a = Inr Map.empty \<longrightarrow>
          convert_span span = Inr span"
    using convert_span_passthrough [of span] by blast
  have 3: "\<forall>extra. ConvertedSpan_init span extra \<noteq> span"
    by (simp add: ConvertedSpan_init_neq)
  have 5: "attributes span = Some Map.empty \<longrightarrow> convert_span span = Inr span"
    using convert_span_passthrough [of span] convert_empty by blast
  have 4: "\<forall>out i. convert_spans spans = Inr out \<and> i < length spans \<and>
          (attributes (spans ! i) = None \<or>
           (\<exists>a. attributes (spans ! i) = Some a \<and>
                convert_genai_to_openinference a = Inr Map.empty)) \<longrightarrow>
          out ! i = spans ! i"
  proof (intro allI impI)
    fix out i
    assume h: "convert_spans spans = Inr out \<and> i < length spans \<and>
          (attributes (spans ! i) = None \<or>
           (\<exists>a. attributes (spans ! i) = Some a \<and>
                convert_genai_to_openinference a = Inr Map.empty))"
    then have "convert_span (spans ! i) = Inr (out ! i)"
      using convert_spans_Inr [of spans out] by blast
    moreover have "convert_span (spans ! i) = Inr (spans ! i)"
      using h convert_span_passthrough [of "spans ! i"] by blast
    ultimately show "out ! i = spans ! i" by simp
  qed
  show ?thesis
    using 1 2 3 4 5 by blast
qed

theorem passthrough_unchanged_witness:
  "attributes bare_span = None
   \<and> convert_span bare_span = Inr bare_span
   \<and> convert_spans [scenario_span, bare_span]
        = Inr [ConvertedSpan_init scenario_span scenario_extra, bare_span]
   \<and> [ConvertedSpan_init scenario_span scenario_extra, bare_span] ! 1 = [scenario_span, bare_span] ! 1"
proof -
  note p = passthrough_unchanged [of bare_span "[scenario_span, bare_span]"]
  have a: "convert_span bare_span = Inr bare_span"
    using p [THEN conjunct1] attributes_bare_span by blast
  have n: "attributes ([scenario_span, bare_span] ! 1) = None"
    by (simp add: attributes_bare_span)
  have l: "(1::nat) < length [scenario_span, bare_span]" by simp
  have b: "[ConvertedSpan_init scenario_span scenario_extra, bare_span] ! 1
           = [scenario_span, bare_span] ! 1"
    using p [THEN conjunct2, THEN conjunct2, THEN conjunct2, THEN conjunct2, rule_format,
        of "[ConvertedSpan_init scenario_span scenario_extra, bare_span]" 1]
      convert_spans_example n l by blast
  show ?thesis
    using a b attributes_bare_span convert_spans_example by blast
qed

subsection \<open>The converted span\<close>

text \<open>
  Claim C7. The attributes of a converted span have every key of the original
  attributes and of the extra mapping; on a key of the extra mapping the extra value
  wins; every other key keeps its original value.
\<close>

theorem merged_attributes_invariant:
  "\<exists>m. attributes (ConvertedSpan_init original extra) = Some m
     \<and> dom m = dom (attrs_or_empty original) \<union> dom extra
     \<and> (\<forall>k \<in> dom extra. m k = extra k)
     \<and> (\<forall>k. k \<notin> dom extra \<longrightarrow> m k = attrs_or_empty original k)"
proof -
  have o: "(case attributes original of
              None \<Rightarrow> Map.empty
            | Some a \<Rightarrow> if a = Map.empty then Map.empty else a) = attrs_or_empty original"
    by (simp add: attrs_or_empty_def split: option.splits)
  have m: "attributes (ConvertedSpan_init original extra)
      = Some (attrs_or_empty original ++ extra)"
    by (simp add: ConvertedSpan_init_def o)
  have 1: "dom (attrs_or_empty original ++ extra) = dom (attrs_or_empty original) \<union> dom extra"
    by auto
  have 2: "\<forall>k \<in> dom extra. (attrs_or_empty original ++ extra) k = extra k"
    by (auto simp: map_add_def)
  have 3: "\<forall>k. k \<notin> dom extra \<longrightarrow> (attrs_or_empty original ++ extra) k = attrs_or_empty original k"
    by (auto simp: map_add_def dom_def split: option.splits)
  show ?thesis
    using m 1 2 3 by blast
qed

theorem merged_attributes_invariant_witness:
  "attributes (ConvertedSpan_init scenario_span override_extra)
     = Some (scenario_attrs ++ override_extra)
   \<and> GENAI_TOOL_NAME \<in> dom override_extra
   \<and> scenario_attrs GENAI_TOOL_NAME = Some (VStr ''search'')
   \<and> (scenario_attrs ++ override_extra) GENAI_TOOL_NAME = Some (VStr ''override'')
   \<and> GENAI_USAGE_INPUT_TOKENS \<notin> dom override_extra
   \<and> (scenario_attrs ++ override_extra) GENAI_USAGE_INPUT_TOKENS = Some (VInt 12)"
proof -
  from merged_attributes_invariant [of scenario_span override_extra]
  obtain m where m: "attributes (ConvertedSpan_init scenario_span override_extra) = Some m"
    and w: "\<forall>k \<in> dom override_extra. m k = override_extra k"
    and o: "\<forall>k. k \<notin> dom override_extra \<longrightarrow> m k = attrs_or_empty scenario_span k"
    by blast
  have a: "attributes (ConvertedSpan_init scenario_span override_extra)
     = Some (scenario_attrs ++ override_extra)"
    by (simp add: ConvertedSpan_init_def attributes_scenario_span scenario_attrs_nonempty)
  with m have me: "m = scenario_attrs ++ override_extra" by simp
  have d1: "GENAI_TOOL_NAME \<in> dom override_extra"
    and d2: "GENAI_USAGE_INPUT_TOKENS \<notin> dom override_extra"
    by (simp_all add: override_extra_def)
  have v1: "override_extra GENAI_TOOL_NAME = Some (VStr ''override'')"
    by (simp add: override_extra_def)
  have v2: "attrs_or_empty scenario_span GENAI_USAGE_INPUT_TOKENS = Some (VInt 12)"
    by (simp add: attrs_or_empty_def attributes_scenario_span scenario_attrs_def)
  have v3: "scenario_attrs GENAI_TOOL_NAME = Some (VStr ''search'')"
    by (simp add: scenario_attrs_def)
  have r1: "(scenario_attrs ++ override_extra) GENAI_TOOL_NAME = Some (VStr ''override'')"
    using w d1 v1 unfolding me by simp
  have r2: "(scenario_attrs ++ override_extra) GENAI_USAGE_INPUT_TOKENS = Some (VInt 12)"
    using o d2 v2 unfolding me by simp
  show ?thesis
    using a d1 d2 v3 r1 r2 by blast
qed

text \<open>
  Claim C8. Every accessor of a converted span other than \<open>attributes\<close> returns what the
  same accessor returns on the original span. For the events, the links and the
  resource, whatever the SDK's accessor does and in whatever store: the converted span
  hands out the very reference that the original's accessor hands out, and leaves the
  store as that accessor leaves it, so it builds no object of its own.
\<close>

theorem converted_span_delegates:
  "name (ConvertedSpan_init original extra) = name original
   \<and> context_of (ConvertedSpan_init original extra) = context_of original
   \<and> kind (ConvertedSpan_init original extra) = kind original
   \<and> parent (ConvertedSpan_init original extra) = parent original
   \<and> start_time (ConvertedSpan_init original extra) = start_time original
   \<and> end_time (ConvertedSpan_init original extra) = end_time original
   \<and> status (ConvertedSpan_init original extra) = status original
   \<and> events sdk_events (ConvertedSpan_init original extra) st = events sdk_events original st
   \<and> links sdk_links (ConvertedSpan_init original extra) st = links sdk_links original st
   \<and> resource sdk_resource (ConvertedSpan_init original extra) st
       = resource sdk_resource original st
   \<and> instrumentation_scope (ConvertedSpan_init original extra) = instrumentation_scope original
   \<and> dropped_attributes (ConvertedSpan_init original extra) = dropped_attributes original
   \<and> dropped_events (ConvertedSpan_init original extra) = dropped_events original
   \<and> dropped_links (ConvertedSpan_init original extra) = dropped_links original
   \<and> get_span_context (ConvertedSpan_init original extra) = get_span_context original"
  by (simp add: ConvertedSpan_init_def Let_def)

subsection \<open>Idempotence\<close>

text \<open>
  Claim C9. When the translator derives \<open>extra\<close> from a mapping \<open>A\<close>, it derives the same
  \<open>extra\<close> from the merged mapping \<open>A ++ extra\<close>, and no key of \<open>extra\<close> is among the keys
  the translator reads.
\<close>

theorem translation_idempotent:
  assumes "convert_genai_to_openinference A = Inr extra"
  shows "convert_genai_to_openinference (A ++ extra) = Inr extra
       \<and> dom extra \<inter> set source_keys = {}"
proof -
  have d: "dom extra \<subseteq> set target_keys"
    by (rule convert_dom_target [OF assms])
  have "\<forall>k \<in> set source_keys. py_get (A ++ extra) k = py_get A k"
    using py_get_add_source [OF d] by blast
  then have "convert_genai_to_openinference (A ++ extra) = convert_genai_to_openinference A"
    by (rule convert_cong)
  moreover have "dom extra \<inter> set source_keys = {}"
    using d source_target_disjoint by blast
  ultimately show ?thesis
    using assms by simp
qed

theorem translation_idempotent_witness:
  "convert_genai_to_openinference scenario_attrs = Inr scenario_extra
   \<and> convert_genai_to_openinference (scenario_attrs ++ scenario_extra) = Inr scenario_extra
   \<and> dom scenario_extra \<inter> set source_keys = {}"
  using translation_idempotent [OF convert_scenario] convert_scenario by blast

subsection \<open>Presence: not None for token counts, truthy for the other rules\<close>

text \<open>
  Claim C10. In a derived mapping, a token count is copied whenever its value is not
  \<^verbatim>\<open>None\<close>: a count of 0 is copied and enters the total. The operation-name, payload and
  metadata rules write nothing when their source value is falsy (the empty string, 0, an
  empty container).
\<close>

theorem presence_semantics:
  assumes "convert_genai_to_openinference attrs = Inr extra"
  shows "(py_get attrs GENAI_USAGE_INPUT_TOKENS \<noteq> VNone \<longrightarrow>
            extra OI_LLM_TOKEN_PROMPT = Some (py_get attrs GENAI_USAGE_INPUT_TOKENS))
       \<and> (py_get attrs GENAI_USAGE_OUTPUT_TOKENS \<noteq> VNone \<longrightarrow>
            extra OI_LLM_TOKEN_COMPLETION = Some (py_get attrs GENAI_USAGE_OUTPUT_TOKENS))
       \<and> (py_get attrs GENAI_USAGE_INPUT_TOKENS = VInt 0 \<longrightarrow>
            extra OI_LLM_TOKEN_PROMPT = Some (VInt 0))
       \<and> (py_get attrs GENAI_USAGE_OUTPUT_TOKENS = VInt 0 \<longrightarrow>
            extra OI_LLM_TOKEN_COMPLETION = Some (VInt 0))
       \<and> (\<forall>n. py_get attrs GENAI_USAGE_INPUT_TOKENS = VInt 0 \<and>
               py_get attrs GENAI_USAGE_OUTPUT_TOKENS = VInt n \<longrightarrow>
               extra OI_LLM_TOKEN_TOTAL = Some (VInt n))
       \<and> (\<forall>n. py_get attrs GENAI_USAGE_INPUT_TOKENS = VInt n \<and>
               py_get attrs GENAI_USAGE_OUTPUT_TOKENS = VInt 0 \<longrightarrow>
               extra OI_LLM_TOKEN_TOTAL = Some (VInt n))
       \<and> (\<not> truthy (py_get attrs GENAI_OPERATION_NAME) \<longrightarrow> extra OI_SPAN_KIND = None)
       \<and> (\<not> truthy (py_get attrs AGENTSCOPE_FUNCTION_INPUT) \<longrightarrow>
            extra OI_INPUT_VALUE = None \<and> extra OI_INPUT_MIME_TYPE = None)
       \<and> (\<not> truthy (py_get attrs AGENTSCOPE_FUNCTION_OUTPUT) \<longrightarrow>
            extra OI_OUTPUT_VALUE = None \<and> extra OI_OUTPUT_MIME_TYPE = None)
       \<and> (\<not> truthy (py_get attrs GENAI_REQUEST_MODEL) \<longrightarrow> extra OI_METADATA_MODEL = None)
       \<and> (\<not> truthy (py_get attrs GENAI_PROVIDER_NAME) \<longrightarrow> extra OI_METADATA_PROVIDER = None)
       \<and> (\<not> truthy (py_get attrs GENAI_AGENT_NAME) \<longrightarrow> extra OI_METADATA_AGENT_NAME = None)
       \<and> (\<not> truthy (py_get attrs GENAI_TOOL_NAME) \<longrightarrow> extra OI_METADATA_TOOL_NAME = None)
       \<and> (\<not> truthy (py_get attrs GENAI_CONVERSATION_ID) \<longrightarrow>
            extra OI_METADATA_CONVERSATION_ID = None)
       \<and> \<not> truthy (VStr '''') \<and> \<not> truthy (VInt 0) \<and> \<not> truthy (VList [])
       \<and> \<not> truthy (VTuple []) \<and> \<not> truthy (VDict [])"
proof -
  note tk = convert_tokens [OF assms]
  have p1: "py_get attrs GENAI_USAGE_INPUT_TOKENS \<noteq> VNone \<longrightarrow>
            extra OI_LLM_TOKEN_PROMPT = Some (py_get attrs GENAI_USAGE_INPUT_TOKENS)"
    using tk(1) by simp
  have p2: "py_get attrs GENAI_USAGE_OUTPUT_TOKENS \<noteq> VNone \<longrightarrow>
            extra OI_LLM_TOKEN_COMPLETION = Some (py_get attrs GENAI_USAGE_OUTPUT_TOKENS)"
    using tk(2) by simp
  have p3: "py_get attrs GENAI_USAGE_INPUT_TOKENS = VInt 0 \<longrightarrow>
            extra OI_LLM_TOKEN_PROMPT = Some (VInt 0)"
    using tk(1) by simp
  have p4: "py_get attrs GENAI_USAGE_OUTPUT_TOKENS = VInt 0 \<longrightarrow>
            extra OI_LLM_TOKEN_COMPLETION = Some (VInt 0)"
    using tk(2) by simp
  have p5: "\<forall>n. py_get attrs GENAI_USAGE_INPUT_TOKENS = VInt 0 \<and>
               py_get attrs GENAI_USAGE_OUTPUT_TOKENS = VInt n \<longrightarrow>
               extra OI_LLM_TOKEN_TOTAL = Some (VInt n)"
    using tk(3) by simp
  have p6: "\<forall>n. py_get attrs GENAI_USAGE_INPUT_TOKENS = VInt n \<and>
               py_get attrs GENAI_USAGE_OUTPUT_TOKENS = VInt 0 \<longrightarrow>
               extra OI_LLM_TOKEN_TOTAL = Some (VInt n)"
    using tk(3) by simp
  have p7: "\<not> truthy (py_get attrs GENAI_OPERATION_NAME) \<longrightarrow> extra OI_SPAN_KIND = None"
    using convert_span_kind [OF assms] by simp
  have o: "extra k = metadata_block attrs (payload_block attrs Map.empty) k"
    if "k \<noteq> OI_SPAN_KIND" "k \<noteq> OI_LLM_TOKEN_PROMPT" "k \<noteq> OI_LLM_TOKEN_COMPLETION"
      "k \<noteq> OI_LLM_TOKEN_TOTAL" for k
    using convert_other [OF assms that] .
  have p8: "\<not> truthy (py_get attrs AGENTSCOPE_FUNCTION_INPUT) \<longrightarrow>
            extra OI_INPUT_VALUE = None \<and> extra OI_INPUT_MIME_TYPE = None"
    by (simp add: o metadata_block_apply payload_block_apply)
  have p9: "\<not> truthy (py_get attrs AGENTSCOPE_FUNCTION_OUTPUT) \<longrightarrow>
            extra OI_OUTPUT_VALUE = None \<and> extra OI_OUTPUT_MIME_TYPE = None"
    by (simp add: o metadata_block_apply payload_block_apply)
  have p10: "\<not> truthy (py_get attrs GENAI_REQUEST_MODEL) \<longrightarrow> extra OI_METADATA_MODEL = None"
    by (simp add: o metadata_block_apply payload_block_apply)
  have p11: "\<not> truthy (py_get attrs GENAI_PROVIDER_NAME) \<longrightarrow> extra OI_METADATA_PROVIDER = None"
    by (simp add: o metadata_block_apply payload_block_apply)
  have p12: "\<not> truthy (py_get attrs GENAI_AGENT_NAME) \<longrightarrow> extra OI_METADATA_AGENT_NAME = None"
    by (simp add: o metadata_block_apply payload_block_apply)
  have p13: "\<not> truthy (py_get attrs GENAI_TOOL_NAME) \<longrightarrow> extra OI_METADATA_TOOL_NAME = None"
    by (simp add: o metadata_block_apply payload_block_apply)
  have p14: "\<not> truthy (py_get attrs GENAI_CONVERSATION_ID) \<longrightarrow>
            extra OI_METADATA_CONVERSATION_ID = None"
    by (simp add: o metadata_block_apply payload_block_apply)
  have p15: "\<not> truthy (VStr '''') \<and> \<not> truthy (VInt 0) \<and> \<not> truthy (VList [])
       \<and> \<not> truthy (VTuple []) \<and> \<not> truthy (VDict [])"
    by simp
  show ?thesis
    by (intro conjI p1 p2 p3 p4 p5 p6 p7 p8 p9 p10 p11 p12 p13 p14 p15 [THEN conjunct1]
        p15 [THEN conjunct2, THEN conjunct1] p15 [THEN conjunct2, THEN conjunct2, THEN conjunct1]
        p15 [THEN conjunct2, THEN conjunct2, THEN conjunct2, THEN conjunct1]
        p15 [THEN conjunct2, THEN conjunct2, THEN conjunct2, THEN conjunct2])
qed

theorem presence_semantics_witness:
  "convert_genai_to_openinference falsy_attrs = Inr falsy_extra
   \<and> py_get falsy_attrs GENAI_USAGE_INPUT_TOKENS = VInt 0
   \<and> falsy_extra OI_LLM_TOKEN_PROMPT = Some (VInt 0)
   \<and> falsy_extra OI_LLM_TOKEN_TOTAL = Some (VInt 5)
   \<and> falsy_attrs GENAI_OPERATION_NAME = Some (VStr '''')
   \<and> falsy_extra OI_SPAN_KIND = None
   \<and> falsy_attrs AGENTSCOPE_FUNCTION_INPUT = Some (VList [])
   \<and> falsy_extra OI_INPUT_VALUE = None
   \<and> falsy_attrs GENAI_REQUEST_MODEL = Some (VInt 0)
   \<and> falsy_extra OI_METADATA_MODEL = None"
proof -
  note p = presence_semantics [OF convert_falsy]
  have a: "falsy_extra OI_LLM_TOKEN_PROMPT = Some (VInt 0)"
    using p falsy_get(2) by blast
  have b: "falsy_extra OI_LLM_TOKEN_TOTAL = Some (VInt 5)"
    using p falsy_get(2,3) by blast
  have t: "\<not> truthy (py_get falsy_attrs GENAI_OPERATION_NAME)"
    "\<not> truthy (py_get falsy_attrs AGENTSCOPE_FUNCTION_INPUT)"
    "\<not> truthy (py_get falsy_attrs GENAI_REQUEST_MODEL)"
    by (simp_all add: falsy_get)
  have c: "falsy_extra OI_SPAN_KIND = None"
    using p t(1) by blast
  have d: "falsy_extra OI_INPUT_VALUE = None"
    using p t(2) by blast
  have e: "falsy_extra OI_METADATA_MODEL = None"
    using p t(3) by blast
  have f: "falsy_attrs GENAI_OPERATION_NAME = Some (VStr '''')"
    "falsy_attrs AGENTSCOPE_FUNCTION_INPUT = Some (VList [])"
    "falsy_attrs GENAI_REQUEST_MODEL = Some (VInt 0)"
    by (simp_all add: falsy_attrs_def)
  show ?thesis
    using a b c d e f convert_falsy falsy_get(2) by blast
qed

end
